theory Spec2Isabelle
  imports Complex_Main "HOL-Library.Sublist" "HOL-Library.Monad_Syntax"
begin

section \<open>Tracking-App: click tracking and deferred enrichment\<close>

text \<open>
  The repository holds three versions of one Express/Mongoose server. All three open the
  collection of the model \<open>Link\<close> in the same database.
  \<^item> \<open>src/server.js\<close>: links with a click counter only; no click history.
  \<^item> \<open>src/unnamed/part_000\<close>, lines 600 to 884: links with a click history
    (\<open>clickRecords\<close>); the handler of \<open>/track/:linkId\<close> redirects.
  \<^item> \<open>src/unnamed/part_000\<close>, lines 1 to 598: the history records carry the
    client-side fields as well, \<open>/track/:linkId\<close> answers with an interstitial page,
    and \<open>POST /api/track-update/:linkId\<close> merges the client's data into the last record.

  The model is sequential: one handler runs at a time on the whole store. The store is a
  map from \<open>linkId\<close> (the schema declares it unique) to the stored document. A failure
  of the database itself is not modelled. The casts of Mongoose, which decide what is
  stored and whether a write throws, are a parameter of the handlers.
\<close>

subsection \<open>JavaScript values\<close>

text \<open>
  The values that \<open>JSON.parse\<close> produces, and \<open>undefined\<close> for a property that is
  not there. A JSON number is a finite double; it is modelled by its real value.
\<close>

datatype jsval =
    JUndefined
  | JNull
  | JBool bool
  | JNum real
  | JStr string
  | JArr "jsval list"
  | JObj "(string \<times> jsval) list"

text \<open>Truthiness: \<open>undefined\<close>, \<open>null\<close>, \<open>false\<close>, \<open>0\<close> and \<open>''\<close> are falsy.\<close>

fun truthy :: "jsval \<Rightarrow> bool" where
  "truthy JUndefined = False"
| "truthy JNull = False"
| "truthy (JBool b) = b"
| "truthy (JNum x) = (x \<noteq> 0)"
| "truthy (JStr s) = (s \<noteq> [])"
| "truthy (JArr xs) = True"
| "truthy (JObj kvs) = True"

text \<open>The operator \<open>a || b\<close>.\<close>

definition js_or :: "jsval \<Rightarrow> jsval \<Rightarrow> jsval" where
  "js_or a b = (if truthy a then a else b)"

text \<open>
  \<open>obj.key\<close> on an object built by \<open>JSON.parse\<close>: of two members with the same key the
  later one wins; a key that is not there reads as \<open>undefined\<close>.
\<close>

definition field :: "(string \<times> jsval) list \<Rightarrow> string \<Rightarrow> jsval" where
  "field kvs k = (case map_of (rev kvs) k of None \<Rightarrow> JUndefined | Some v \<Rightarrow> v)"

text \<open>
  A chain \<open>h1 || h2 || ... || d\<close> over header values, each a string or \<open>undefined\<close>:
  the first non-empty string, else the default \<open>d\<close>.
\<close>

fun first_truthy :: "string option list \<Rightarrow> string \<Rightarrow> string" where
  "first_truthy [] d = d"
| "first_truthy (None # hs) d = first_truthy hs d"
| "first_truthy (Some s # hs) d = (if s = [] then first_truthy hs d else s)"

subsection \<open>Strings\<close>

text \<open>
  Node decodes header bytes as Latin-1, so a header value is a list of 8-bit characters.
  \<open>toLowerCase\<close> on Latin-1 maps \<open>A\<close>..\<open>Z\<close> and the accented capitals
  \<open>0xC0\<close>..\<open>0xDE\<close> (the multiplication sign \<open>0xD7\<close> apart) to the character 32
  places later.
\<close>

definition lower_char :: "char \<Rightarrow> char" where
  "lower_char c =
     (let n = (of_char c :: nat)
      in if (65 \<le> n \<and> n \<le> 90) \<or> (192 \<le> n \<and> n \<le> 222 \<and> n \<noteq> 215)
         then char_of (n + 32) else c)"

definition toLowerCase :: "string \<Rightarrow> string" where
  "toLowerCase s = map lower_char s"

text \<open>\<open>hay.includes(needle)\<close>: the needle occurs as a contiguous substring.\<close>

fun includes_str :: "string \<Rightarrow> string \<Rightarrow> bool" where
  "includes_str [] needle = (needle = [])"
| "includes_str (c # cs) needle = (prefix needle (c # cs) \<or> includes_str cs needle)"

text \<open>
  \<open>s.replace(pat, rep)\<close> with a string pattern: the first occurrence of \<open>pat\<close> is
  replaced, wherever it is. (The replacement used by the source is the empty string, so
  the \<open>$\<close> patterns of a replacement string play no part.)
\<close>

fun replace :: "string \<Rightarrow> string \<Rightarrow> string \<Rightarrow> string" where
  "replace [] pat rep = (if pat = [] then rep else [])"
| "replace (c # cs) pat rep =
     (if prefix pat (c # cs) then rep @ drop (length pat) (c # cs)
      else c # replace cs pat rep)"

subsection \<open>User-agent classifier\<close>

record ua_info =
  ua_browser :: string
  ua_os :: string
  ua_device :: string

definition parseUserAgent :: "string \<Rightarrow> ua_info" where
  "parseUserAgent userAgent =
     (let ua = toLowerCase userAgent;
          browser =
            (if includes_str ua ''chrome'' \<and> \<not> includes_str ua ''edg'' then ''Chrome''
             else if includes_str ua ''safari'' \<and> \<not> includes_str ua ''chrome'' then ''Safari''
             else if includes_str ua ''firefox'' then ''Firefox''
             else if includes_str ua ''edg'' then ''Edge''
             else if includes_str ua ''opera'' \<or> includes_str ua ''opr'' then ''Opera''
             else ''Unknown'');
          os =
            (if includes_str ua ''windows'' then ''Windows''
             else if includes_str ua ''mac'' then ''macOS''
             else if includes_str ua ''linux'' then ''Linux''
             else if includes_str ua ''android'' then ''Android''
             else if includes_str ua ''iphone'' \<or> includes_str ua ''ipad'' then ''iOS''
             else ''Unknown'');
          device =
            (if includes_str ua ''mobile'' then ''Mobile''
             else if includes_str ua ''tablet'' \<or> includes_str ua ''ipad'' then ''Tablet''
             else ''Desktop'')
      in \<lparr>ua_browser = browser, ua_os = os, ua_device = device\<rparr>)"

subsection \<open>IP geolocation resolver\<close>

record geo =
  geo_country :: jsval
  geo_city :: jsval
  geo_region :: jsval
  geo_latitude :: jsval
  geo_longitude :: jsval

text \<open>The object literal that the source returns in the short-circuit and at its end.\<close>

definition unknown_geo :: geo where
  "unknown_geo =
     \<lparr>geo_country = JStr ''Unknown'', geo_city = JStr ''Unknown'',
      geo_region = JStr ''Unknown'', geo_latitude = JNull, geo_longitude = JNull\<rparr>"

text \<open>
  The outside world: what \<open>await fetch(url)\<close> followed by \<open>await response.json()\<close>
  gives for a URL. \<open>fetch\<close> rejects on a network error, \<open>response.json()\<close> rejects on
  a body that is not JSON, otherwise the parsed value comes back (whatever the HTTP
  status was).
\<close>

datatype fetch_result = NetworkError | NotJson | Body jsval

datatype js_error = FetchFailed | SyntaxError | TypeError

text \<open>How a block of statements ends: by \<open>return\<close>, by a \<open>throw\<close>, or at its last line.\<close>

datatype 'a completion = Returned 'a | Thrown js_error | Fell

text \<open>
  The \<open>try\<close> block of \<open>getGeolocation\<close>, with the list of URLs it requested.
  \<open>data.status\<close> throws a TypeError on \<open>null\<close>, and is \<open>undefined\<close> on a number,
  a string, a boolean or an array.
\<close>

definition getGeolocation_try ::
  "(string \<Rightarrow> fetch_result) \<Rightarrow> string \<Rightarrow> geo completion \<times> string list" where
  "getGeolocation_try fetch ip =
     (let cleanIp = replace ip ''::ffff:'' ''''
      in if cleanIp = ''127.0.0.1'' \<or> cleanIp = ''::1'' \<or> cleanIp = ''Unknown''
         then (Returned unknown_geo, [])
         else
           (let url = ''http://ip-api.com/json/'' @ cleanIp
            in (case fetch url of
                  NetworkError \<Rightarrow> (Thrown FetchFailed, [url])
                | NotJson \<Rightarrow> (Thrown SyntaxError, [url])
                | Body data \<Rightarrow>
                    (case data of
                       JUndefined \<Rightarrow> (Thrown TypeError, [url])
                     | JNull \<Rightarrow> (Thrown TypeError, [url])
                     | JObj kvs \<Rightarrow>
                         if field kvs ''status'' = JStr ''success''
                         then (Returned
                                 \<lparr>geo_country = js_or (field kvs ''country'') (JStr ''Unknown''),
                                  geo_city = js_or (field kvs ''city'') (JStr ''Unknown''),
                                  geo_region = js_or (field kvs ''regionName'') (JStr ''Unknown''),
                                  geo_latitude = js_or (field kvs ''lat'') JNull,
                                  geo_longitude = js_or (field kvs ''lon'') JNull\<rparr>, [url])
                         else (Fell, [url])
                     | _ \<Rightarrow> (Fell, [url])))))"

text \<open>
  The whole function: the \<open>catch\<close> logs and goes on to the final \<open>return\<close>. The
  result is \<open>Inr\<close> for a promise that resolves and \<open>Inl\<close> for one that rejects.
\<close>

definition getGeolocation ::
  "(string \<Rightarrow> fetch_result) \<Rightarrow> string \<Rightarrow> (js_error + geo) \<times> string list" where
  "getGeolocation fetch ip =
     (case getGeolocation_try fetch ip of
        (Returned g, urls) \<Rightarrow> (Inr g, urls)
      | (Thrown e, urls) \<Rightarrow> (Inr unknown_geo, urls)
      | (Fell, urls) \<Rightarrow> (Inr unknown_geo, urls))"

subsection \<open>Documents and the store\<close>

text \<open>
  Times are milliseconds since the epoch. The counter only ever grows by one from 0,
  so it is a natural number.
\<close>

record click_record =
  timestamp :: nat
  ipAddress :: string
  country :: jsval
  city :: jsval
  region :: jsval
  latitude :: jsval
  longitude :: jsval
  userAgent :: string
  browser :: string
  os :: string
  device :: string
  referrer :: string
  cameraPermission :: jsval
  locationPermission :: jsval
  userLatitude :: jsval
  userLongitude :: jsval
  portNumber :: jsval
  connectionType :: jsval
  screenResolution :: jsval
  language :: jsval
  timezone :: jsval

record link =
  linkId :: string
  name :: string
  destinationUrl :: string
  clicks :: nat
  createdAt :: nat
  lastClicked :: "nat option"
  clickRecords :: "click_record list"

type_synonym store = "string \<rightharpoonup> link"

datatype response =
    Success
  | Created link
  | Interstitial string
  | Redirect string
  | NotFound
  | ServerError

subsection \<open>The request of a click\<close>

text \<open>
  What the handlers of \<open>/track/:linkId\<close> read from the request. \<open>req.connection\<close> is
  the same object as \<open>req.socket\<close>.
\<close>

record request =
  param_linkId :: string
  x_forwarded_for :: "string option"
  x_real_ip :: "string option"
  remoteAddress :: "string option"
  remotePort :: "nat option"
  user_agent :: "string option"
  referer :: "string option"
  referrer_header :: "string option"

text \<open>\<open>h?.split(',')[0]\<close>: the part of the header before its first comma.\<close>

definition split_first :: "string option \<Rightarrow> string option" where
  "split_first h =
     (case h of None \<Rightarrow> None | Some s \<Rightarrow> Some (takeWhile (\<lambda>c. c \<noteq> CHR '','') s))"

definition getClientIp :: "request \<Rightarrow> string" where
  "getClientIp req =
     first_truthy
       [split_first (x_forwarded_for req), x_real_ip req, remoteAddress req, remoteAddress req]
       ''Unknown''"

text \<open>\<open>remotePort || remotePort || null\<close>.\<close>

definition port_or_null :: "nat option \<Rightarrow> jsval" where
  "port_or_null p =
     (case p of None \<Rightarrow> JNull | Some n \<Rightarrow> if n = 0 then JNull else JNum (real n))"

subsection \<open>Schema casts\<close>

text \<open>
  Mongoose casts every value to the type that the schema declares for its path, when a
  field of a document is assigned and when an update is about to be sent; the paths of a
  click record are declared \<open>String\<close> or \<open>Number\<close> (\<open>part_000\<close>, lines 28 to 51).
  The casts are library code. What is certain of them is written out: \<open>undefined\<close> and
  \<open>null\<close> pass as they are, a string stays the same string under \<open>String\<close>, a number
  stays the same number under \<open>Number\<close>. What Mongoose makes of a value of another type
  is a parameter: \<open>Some\<close> the converted value (the number 7 becomes the string
  \<open>'7'\<close>), or \<open>None\<close> for a CastError.
\<close>

record casts =
  to_string :: "jsval \<Rightarrow> jsval option"
  to_number :: "jsval \<Rightarrow> jsval option"

fun castString :: "casts \<Rightarrow> jsval \<Rightarrow> jsval option" where
  "castString c JUndefined = Some JUndefined"
| "castString c JNull = Some JNull"
| "castString c (JStr s) = Some (JStr s)"
| "castString c v = to_string c v"

fun castNumber :: "casts \<Rightarrow> jsval \<Rightarrow> jsval option" where
  "castNumber c JUndefined = Some JUndefined"
| "castNumber c JNull = Some JNull"
| "castNumber c (JNum x) = Some (JNum x)"
| "castNumber c v = to_number c v"

text \<open>
  The cast of a click record that is pushed by an update: every path is cast, and the
  first CastError is thrown. The paths modelled as strings always hold a string and the
  time is a \<open>Date\<close>, so their casts change nothing. The schema of \<open>part_000\<close>, line 619,
  has the paths up to \<open>referrer\<close> only; the record pushed there has no other property,
  and an \<open>undefined\<close> property passes.
\<close>

definition cast_record :: "casts \<Rightarrow> click_record \<Rightarrow> click_record option" where
  "cast_record c r =
     do {
       v_country \<leftarrow> castString c (country r);
       v_city \<leftarrow> castString c (city r);
       v_region \<leftarrow> castString c (region r);
       v_latitude \<leftarrow> castNumber c (latitude r);
       v_longitude \<leftarrow> castNumber c (longitude r);
       v_cameraPermission \<leftarrow> castString c (cameraPermission r);
       v_locationPermission \<leftarrow> castString c (locationPermission r);
       v_userLatitude \<leftarrow> castNumber c (userLatitude r);
       v_userLongitude \<leftarrow> castNumber c (userLongitude r);
       v_portNumber \<leftarrow> castNumber c (portNumber r);
       v_connectionType \<leftarrow> castString c (connectionType r);
       v_screenResolution \<leftarrow> castString c (screenResolution r);
       v_language \<leftarrow> castString c (language r);
       v_timezone \<leftarrow> castString c (timezone r);
       Some (r\<lparr>country := v_country, city := v_city, region := v_region,
                latitude := v_latitude, longitude := v_longitude,
                cameraPermission := v_cameraPermission,
                locationPermission := v_locationPermission,
                userLatitude := v_userLatitude, userLongitude := v_userLongitude,
                portNumber := v_portNumber, connectionType := v_connectionType,
                screenResolution := v_screenResolution, language := v_language,
                timezone := v_timezone\<rparr>)
     }"

subsection \<open>Creating and deleting a link\<close>

text \<open>
  \<open>POST /api/links\<close>. The identifier is \<open>'link_' + Date.now() + '_' + random\<close>; the
  printed time \<open>stamp\<close> and the random suffix \<open>rnd\<close> are inputs. The schema requires
  \<open>name\<close> and \<open>destinationUrl\<close> (a missing or empty string fails validation) and
  declares \<open>linkId\<close> unique; \<open>save\<close> then throws, and the handler answers 500.
  The defaults of the schema give \<open>clicks = 0\<close> and an empty \<open>clickRecords\<close>. A document
  written by \<open>src/server.js\<close> has no \<open>clickRecords\<close> at all; Mongoose reads that as the
  empty array, and the model stores the empty list.
\<close>

definition createLink ::
  "string \<Rightarrow> string \<Rightarrow> nat \<Rightarrow> string option \<Rightarrow> string option \<Rightarrow> store \<Rightarrow> response \<times> store" where
  "createLink stamp rnd now body_name body_destinationUrl s =
     (let lid = ''link_'' @ stamp @ ''_'' @ rnd
      in (case (body_name, body_destinationUrl) of
            (Some n, Some u) \<Rightarrow>
              if n = [] \<or> u = [] \<or> s lid \<noteq> None then (ServerError, s)
              else
                (let newLink =
                       \<lparr>linkId = lid, name = n, destinationUrl = u, clicks = 0,
                        createdAt = now, lastClicked = None, clickRecords = []\<rparr>
                 in (Created newLink, s(lid \<mapsto> newLink)))
          | _ \<Rightarrow> (ServerError, s)))"

text \<open>\<open>DELETE /api/links/:linkId\<close>: \<open>findOneAndDelete\<close>, then success either way.\<close>

definition deleteLink :: "string \<Rightarrow> store \<Rightarrow> response \<times> store" where
  "deleteLink lid s = (Success, s(lid := None))"

subsection \<open>Click resolution: the three handlers of \<open>GET /track/:linkId\<close>\<close>

text \<open>
  The handler of \<open>src/unnamed/part_000\<close>, line 300. \<open>new Date()\<close> is read twice, for the
  record (\<open>t_record\<close>) and in the update (\<open>t_update\<close>). The record literal sets no
  \<open>userLatitude\<close> and no \<open>userLongitude\<close>. The link is looked up with \<open>findOne\<close> after
  the record is built, and an absent link is answered there. The update increments, sets
  and pushes in one \<open>findOneAndUpdate\<close>; it casts the pushed record first, and a
  CastError goes to the \<open>catch\<close>, which answers 500 with nothing written.
\<close>

definition track ::
  "casts \<Rightarrow> (string \<Rightarrow> fetch_result) \<Rightarrow> nat \<Rightarrow> nat \<Rightarrow> request \<Rightarrow> store \<Rightarrow> response \<times> store" where
  "track c fetch t_record t_update req s =
     (let lid = param_linkId req;
          ip = getClientIp req;
          agent = first_truthy [user_agent req] ''Unknown'';
          ref = first_truthy [referer req, referrer_header req] ''Direct'';
          ua = parseUserAgent agent
      in (case fst (getGeolocation fetch ip) of
            Inl e \<Rightarrow> (ServerError, s)
          | Inr geoData \<Rightarrow>
              (let clickRecord =
                     \<lparr>timestamp = t_record, ipAddress = ip,
                      country = geo_country geoData, city = geo_city geoData,
                      region = geo_region geoData, latitude = geo_latitude geoData,
                      longitude = geo_longitude geoData,
                      userAgent = agent, browser = ua_browser ua, os = ua_os ua,
                      device = ua_device ua, referrer = ref,
                      cameraPermission = JStr ''not_requested'',
                      locationPermission = JStr ''not_requested'',
                      userLatitude = JUndefined, userLongitude = JUndefined,
                      portNumber = port_or_null (remotePort req),
                      connectionType = JStr ''Unknown'',
                      screenResolution = JStr ''Unknown'',
                      language = JStr ''Unknown'',
                      timezone = JStr ''Unknown''\<rparr>
               in (case s lid of
                     None \<Rightarrow> (NotFound, s)
                   | Some l \<Rightarrow>
                       (case cast_record c clickRecord of
                          None \<Rightarrow> (ServerError, s)
                        | Some pushed \<Rightarrow>
                            (Interstitial (destinationUrl l),
                             s(lid \<mapsto> l\<lparr>clicks := clicks l + 1,
                                           lastClicked := Some t_update,
                                           clickRecords := clickRecords l @ [pushed]\<rparr>)))))))"

text \<open>
  The handler of \<open>src/unnamed/part_000\<close>, line 824: the record has the server-side
  fields only, and the link is found and updated in one \<open>findOneAndUpdate\<close>. That call
  casts the pushed record before it asks the database, so a CastError is thrown (and
  answered with 500 by the \<open>catch\<close>) whether the link exists or not; after the cast it
  answers \<open>null\<close>, and writes nothing, when no document matches.
\<close>

definition track_redirect ::
  "casts \<Rightarrow> (string \<Rightarrow> fetch_result) \<Rightarrow> nat \<Rightarrow> nat \<Rightarrow> request \<Rightarrow> store \<Rightarrow> response \<times> store" where
  "track_redirect c fetch t_record t_update req s =
     (let lid = param_linkId req;
          ip = getClientIp req;
          agent = first_truthy [user_agent req] ''Unknown'';
          ref = first_truthy [referer req, referrer_header req] ''Direct'';
          ua = parseUserAgent agent
      in (case fst (getGeolocation fetch ip) of
            Inl e \<Rightarrow> (ServerError, s)
          | Inr geoData \<Rightarrow>
              (let clickRecord =
                     \<lparr>timestamp = t_record, ipAddress = ip,
                      country = geo_country geoData, city = geo_city geoData,
                      region = geo_region geoData, latitude = geo_latitude geoData,
                      longitude = geo_longitude geoData,
                      userAgent = agent, browser = ua_browser ua, os = ua_os ua,
                      device = ua_device ua, referrer = ref,
                      cameraPermission = JUndefined, locationPermission = JUndefined,
                      userLatitude = JUndefined, userLongitude = JUndefined,
                      portNumber = JUndefined, connectionType = JUndefined,
                      screenResolution = JUndefined, language = JUndefined,
                      timezone = JUndefined\<rparr>
               in (case cast_record c clickRecord of
                     None \<Rightarrow> (ServerError, s)
                   | Some pushed \<Rightarrow>
                       (case s lid of
                          None \<Rightarrow> (NotFound, s)
                        | Some l \<Rightarrow>
                            (Redirect (destinationUrl l),
                             s(lid \<mapsto> l\<lparr>clicks := clicks l + 1,
                                           lastClicked := Some t_update,
                                           clickRecords := clickRecords l @ [pushed]\<rparr>)))))))"

text \<open>
  The handler of \<open>src/server.js\<close>, line 107: the update names \<open>clicks\<close> and
  \<open>lastClicked\<close> only, so every other path of the document stays as it is. It sends a
  number and a date, which the casts leave alone.
\<close>

definition track_counter :: "nat \<Rightarrow> request \<Rightarrow> store \<Rightarrow> response \<times> store" where
  "track_counter t_update req s =
     (let lid = param_linkId req
      in (case s lid of
            None \<Rightarrow> (NotFound, s)
          | Some l \<Rightarrow>
              (Redirect (destinationUrl l),
               s(lid \<mapsto> l\<lparr>clicks := clicks l + 1, lastClicked := Some t_update\<rparr>))))"

subsection \<open>Deferred enrichment: \<open>POST /api/track-update/:linkId\<close>\<close>

text \<open>
  The eight properties that the handler takes out of \<open>req.body\<close>; a property that the
  body does not have is \<open>undefined\<close>.
\<close>

record payload =
  p_cameraPermission :: jsval
  p_locationPermission :: jsval
  p_userLatitude :: jsval
  p_userLongitude :: jsval
  p_screenResolution :: jsval
  p_language :: jsval
  p_timezone :: jsval
  p_connectionType :: jsval

text \<open>
  One guarded assignment \<open>if (guard) record.field = value\<close> on a Mongoose
  subdocument. The assignment casts the value; a value that cannot be cast is not
  stored and leaves a cast error on the document, which makes the later \<open>save\<close> fail.
  The result is \<open>None\<close> for a document that will not save.
\<close>

definition assign ::
  "bool \<Rightarrow> jsval option \<Rightarrow> (jsval \<Rightarrow> click_record \<Rightarrow> click_record) \<Rightarrow> click_record
     \<Rightarrow> click_record option" where
  "assign guard cast_value upd r =
     (if guard then map_option (\<lambda>v. upd v r) cast_value else Some r)"

text \<open>The eight guarded assignments to \<open>link.clickRecords[lastIndex]\<close>, in source order.\<close>

definition merge_payload :: "casts \<Rightarrow> payload \<Rightarrow> click_record \<Rightarrow> click_record option" where
  "merge_payload c p r0 =
     do {
       r1 \<leftarrow> assign (p_cameraPermission p \<noteq> JUndefined)
               (castString c (p_cameraPermission p))
               (\<lambda>v r. r\<lparr>cameraPermission := v\<rparr>) r0;
       r2 \<leftarrow> assign (p_locationPermission p \<noteq> JUndefined)
               (castString c (p_locationPermission p))
               (\<lambda>v r. r\<lparr>locationPermission := v\<rparr>) r1;
       r3 \<leftarrow> assign (p_userLatitude p \<noteq> JUndefined \<and> p_userLatitude p \<noteq> JNull)
               (castNumber c (p_userLatitude p))
               (\<lambda>v r. r\<lparr>userLatitude := v\<rparr>) r2;
       r4 \<leftarrow> assign (p_userLongitude p \<noteq> JUndefined \<and> p_userLongitude p \<noteq> JNull)
               (castNumber c (p_userLongitude p))
               (\<lambda>v r. r\<lparr>userLongitude := v\<rparr>) r3;
       r5 \<leftarrow> assign (p_screenResolution p \<noteq> JUndefined)
               (castString c (p_screenResolution p))
               (\<lambda>v r. r\<lparr>screenResolution := v\<rparr>) r4;
       r6 \<leftarrow> assign (p_language p \<noteq> JUndefined)
               (castString c (p_language p))
               (\<lambda>v r. r\<lparr>language := v\<rparr>) r5;
       r7 \<leftarrow> assign (p_timezone p \<noteq> JUndefined)
               (castString c (p_timezone p))
               (\<lambda>v r. r\<lparr>timezone := v\<rparr>) r6;
       assign (p_connectionType p \<noteq> JUndefined)
         (castString c (p_connectionType p))
         (\<lambda>v r. r\<lparr>connectionType := v\<rparr>) r7
     }"

text \<open>
  The handler: \<open>await link.save()\<close> throws when an assignment left a cast error, and
  the \<open>catch\<close> answers 500 with nothing written, the well-typed fields included.
\<close>

definition trackUpdate :: "casts \<Rightarrow> string \<Rightarrow> payload \<Rightarrow> store \<Rightarrow> response \<times> store" where
  "trackUpdate c lid p s =
     (case s lid of
        None \<Rightarrow> (NotFound, s)
      | Some l \<Rightarrow>
          if length (clickRecords l) = 0 then (NotFound, s)
          else
            (let lastIndex = length (clickRecords l) - 1
             in (case merge_payload c p (clickRecords l ! lastIndex) of
                   None \<Rightarrow> (ServerError, s)
                 | Some merged \<Rightarrow>
                     (Success,
                      s(lid \<mapsto> l\<lparr>clickRecords := (clickRecords l)[lastIndex := merged]\<rparr>)))))"

subsection \<open>Stores that the record-keeping server reaches\<close>

text \<open>
  The stores that arise from the empty collection by the write operations of
  \<open>src/unnamed/part_000\<close>: creating and deleting a link, a click through either of its
  two handlers, and a deferred enrichment, whatever the casts and the outside world are.
  The handler of \<open>src/server.js\<close> is not among them.
\<close>

inductive reachable :: "store \<Rightarrow> bool" where
  start: "reachable Map.empty"
| create: "reachable s \<Longrightarrow> reachable (snd (createLink stamp rnd now n u s))"
| delete: "reachable s \<Longrightarrow> reachable (snd (deleteLink lid s))"
| click: "reachable s \<Longrightarrow> reachable (snd (track c fetch t_record t_update req s))"
| click_redirect:
    "reachable s \<Longrightarrow> reachable (snd (track_redirect c fetch t_record t_update req s))"
| enrich: "reachable s \<Longrightarrow> reachable (snd (trackUpdate c lid p s))"

subsection \<open>Example data\<close>

text \<open>A click of \<open>curl\<close> through a proxy, on a link created a moment before.\<close>

definition example_request :: request where
  "example_request =
     \<lparr>param_linkId = ''link_1700000000000_k3x9q2m1z'',
      x_forwarded_for = Some ''203.0.113.9, 10.0.0.2'', x_real_ip = None,
      remoteAddress = Some ''::ffff:10.0.0.2'', remotePort = Some 51344,
      user_agent = Some ''curl/8.4.0'', referer = None, referrer_header = None\<rparr>"

definition example_link :: link where
  "example_link =
     \<lparr>linkId = ''link_1700000000000_k3x9q2m1z'', name = ''Promo'',
      destinationUrl = ''https://example.com/'', clicks = 0,
      createdAt = 1700000000000, lastClicked = None, clickRecords = []\<rparr>"

definition example_record :: click_record where
  "example_record =
     \<lparr>timestamp = 1700000000500, ipAddress = ''203.0.113.9'',
      country = JStr ''Unknown'', city = JStr ''Unknown'', region = JStr ''Unknown'',
      latitude = JNull, longitude = JNull,
      userAgent = ''curl/8.4.0'', browser = ''Unknown'', os = ''Unknown'',
      device = ''Desktop'', referrer = ''Direct'',
      cameraPermission = JStr ''not_requested'', locationPermission = JStr ''not_requested'',
      userLatitude = JUndefined, userLongitude = JUndefined,
      portNumber = JNum 51344, connectionType = JStr ''Unknown'',
      screenResolution = JStr ''Unknown'', language = JStr ''Unknown'',
      timezone = JStr ''Unknown''\<rparr>"

text \<open>
  A partial payload: the coordinates and the connection type are \<open>null\<close>, the
  time zone is not there.
\<close>

definition example_payload :: payload where
  "example_payload =
     \<lparr>p_cameraPermission = JStr ''granted'', p_locationPermission = JStr ''denied'',
      p_userLatitude = JNull, p_userLongitude = JNull,
      p_screenResolution = JStr ''1920x1080'', p_language = JStr ''en-US'',
      p_timezone = JUndefined, p_connectionType = JNull\<rparr>"

text \<open>The link and the store after that click, when the geolocation lookup failed.\<close>

definition example_clicked_link :: link where
  "example_clicked_link =
     example_link\<lparr>clicks := 1, lastClicked := Some 1700000000600,
                   clickRecords := [example_record]\<rparr>"

definition example_store :: store where
  "example_store = [linkId example_link \<mapsto> example_clicked_link]"

text \<open>The example record after the example payload has been merged into it.\<close>

definition example_enriched_record :: click_record where
  "example_enriched_record =
     example_record\<lparr>cameraPermission := JStr ''granted'',
                     locationPermission := JStr ''denied'',
                     screenResolution := JStr ''1920x1080'',
                     language := JStr ''en-US'',
                     connectionType := JNull\<rparr>"

text \<open>
  Casts that accept nothing of another type. They agree with Mongoose on the values
  that the examples use: the string \<open>'north'\<close> is no \<open>Number\<close>, and a plain object is
  no \<open>String\<close>.
\<close>

definition strict_casts :: casts where
  "strict_casts = \<lparr>to_string = (\<lambda>v. None), to_number = (\<lambda>v. None)\<rparr>"

text \<open>A provider answer whose latitude is a word.\<close>

definition north_answer :: "string \<Rightarrow> fetch_result" where
  "north_answer url = Body (JObj [(''status'', JStr ''success''), (''lat'', JStr ''north'')])"

section \<open>Properties\<close>

subsection \<open>Substrings\<close>

lemma includes_str_iff: "includes_str hay needle \<longleftrightarrow> (\<exists>ps ss. hay = ps @ needle @ ss)"
proof (induction hay)
  case Nil
  then show ?case by auto
next
  case (Cons c cs)
  show ?case
  proof
    assume "includes_str (c # cs) needle"
    then consider "prefix needle (c # cs)" | "includes_str cs needle" by auto
    then show "\<exists>ps ss. c # cs = ps @ needle @ ss"
    proof cases
      case 1
      then obtain ss where "c # cs = needle @ ss" by (auto simp: prefix_def)
      then have "c # cs = [] @ needle @ ss" by simp
      then show ?thesis by blast
    next
      case 2
      with Cons.IH obtain ps ss where "cs = ps @ needle @ ss" by blast
      then have "c # cs = (c # ps) @ needle @ ss" by simp
      then show ?thesis by blast
    qed
  next
    assume "\<exists>ps ss. c # cs = ps @ needle @ ss"
    then obtain ps ss where eq: "c # cs = ps @ needle @ ss" by blast
    show "includes_str (c # cs) needle"
    proof (cases ps)
      case Nil
      with eq have "prefix needle (c # cs)" by (simp add: prefix_def)
      then show ?thesis by simp
    next
      case (Cons p ps')
      with eq have "cs = ps' @ needle @ ss" by simp
      with Cons.IH have "includes_str cs needle" by blast
      then show ?thesis by simp
    qed
  qed
qed

text \<open>
  The classifier matches without regard to case: a needle written in lower case that
  occurs in the raw string occurs in the lowered string.
\<close>

lemma includes_str_toLowerCase:
  assumes "includes_str s needle" and "toLowerCase needle = needle"
  shows "includes_str (toLowerCase s) needle"
proof -
  from assms(1) obtain ps ss where "s = ps @ needle @ ss"
    by (auto simp: includes_str_iff)
  then have "toLowerCase s = toLowerCase ps @ needle @ toLowerCase ss"
    using assms(2) by (simp add: toLowerCase_def)
  then show ?thesis unfolding includes_str_iff by blast
qed

subsection \<open>C4: precedence of the browser tests\<close>

text \<open>
  C4, as stated, fails: the test for \<open>firefox\<close> comes before the test for \<open>edg\<close>, so a
  string that contains \<open>chrome\<close>, \<open>edg\<close> and \<open>firefox\<close> is classified as Firefox, not
  as Edge.
\<close>

theorem parseUserAgent_edge_counterexample:
  "includes_str (toLowerCase ''chrome edg firefox'') ''chrome''
   \<and> includes_str (toLowerCase ''chrome edg firefox'') ''edg''
   \<and> ua_browser (parseUserAgent ''chrome edg firefox'') = ''Firefox''
   \<and> ua_browser (parseUserAgent ''chrome edg firefox'') \<noteq> ''Edge''"
  by (simp add: parseUserAgent_def toLowerCase_def lower_char_def)

text \<open>
  C4, amended. For every input string, with containment tested on the lowered string:
  a user-agent containing both \<open>chrome\<close> and \<open>edg\<close> is never Chrome, and is Edge unless
  it contains \<open>firefox\<close> as well (then it is Firefox); one containing \<open>chrome\<close> and
  \<open>safari\<close> without \<open>edg\<close> is Chrome; one containing \<open>safari\<close> without \<open>chrome\<close> is
  Safari; and each of the three results is one of the fixed labels.
\<close>

theorem parseUserAgent_precedence:
  "(includes_str (toLowerCase agent) ''chrome''
      \<and> includes_str (toLowerCase agent) ''edg'' \<longrightarrow>
        ua_browser (parseUserAgent agent) \<noteq> ''Chrome''
        \<and> ua_browser (parseUserAgent agent) =
            (if includes_str (toLowerCase agent) ''firefox'' then ''Firefox'' else ''Edge''))
   \<and> (includes_str (toLowerCase agent) ''chrome''
      \<and> includes_str (toLowerCase agent) ''safari''
      \<and> \<not> includes_str (toLowerCase agent) ''edg'' \<longrightarrow>
        ua_browser (parseUserAgent agent) = ''Chrome'')
   \<and> (includes_str (toLowerCase agent) ''safari''
      \<and> \<not> includes_str (toLowerCase agent) ''chrome'' \<longrightarrow>
        ua_browser (parseUserAgent agent) = ''Safari'')
   \<and> ua_browser (parseUserAgent agent)
        \<in> {''Chrome'', ''Safari'', ''Firefox'', ''Edge'', ''Opera'', ''Unknown''}
   \<and> ua_os (parseUserAgent agent)
        \<in> {''Windows'', ''macOS'', ''Linux'', ''Android'', ''iOS'', ''Unknown''}
   \<and> ua_device (parseUserAgent agent) \<in> {''Mobile'', ''Tablet'', ''Desktop''}"
  by (simp add: parseUserAgent_def Let_def)

text \<open>
  The three hypotheses at the user-agent strings of Edge, Chrome and Safari on a desktop.
\<close>

theorem parseUserAgent_precedence_witness:
  "(includes_str (toLowerCase ''Mozilla/5.0 (Windows NT 10.0) Chrome/120.0 Safari/537.36 Edg/120.0'') ''chrome''
    \<and> includes_str (toLowerCase ''Mozilla/5.0 (Windows NT 10.0) Chrome/120.0 Safari/537.36 Edg/120.0'') ''edg''
    \<and> ua_browser (parseUserAgent ''Mozilla/5.0 (Windows NT 10.0) Chrome/120.0 Safari/537.36 Edg/120.0'') = ''Edge'')
   \<and> (includes_str (toLowerCase ''Mozilla/5.0 (X11; Linux) Chrome/120.0 Safari/537.36'') ''chrome''
    \<and> includes_str (toLowerCase ''Mozilla/5.0 (X11; Linux) Chrome/120.0 Safari/537.36'') ''safari''
    \<and> \<not> includes_str (toLowerCase ''Mozilla/5.0 (X11; Linux) Chrome/120.0 Safari/537.36'') ''edg''
    \<and> ua_browser (parseUserAgent ''Mozilla/5.0 (X11; Linux) Chrome/120.0 Safari/537.36'') = ''Chrome'')
   \<and> (includes_str (toLowerCase ''Mozilla/5.0 (Macintosh) Version/17.0 Safari/605.1.15'') ''safari''
    \<and> \<not> includes_str (toLowerCase ''Mozilla/5.0 (Macintosh) Version/17.0 Safari/605.1.15'') ''chrome''
    \<and> ua_browser (parseUserAgent ''Mozilla/5.0 (Macintosh) Version/17.0 Safari/605.1.15'') = ''Safari'')"
proof -
  have e1: "includes_str (toLowerCase ''Mozilla/5.0 (Windows NT 10.0) Chrome/120.0 Safari/537.36 Edg/120.0'') ''chrome''"
    by code_simp
  have e2: "includes_str (toLowerCase ''Mozilla/5.0 (Windows NT 10.0) Chrome/120.0 Safari/537.36 Edg/120.0'') ''edg''"
    by code_simp
  have e3: "\<not> includes_str (toLowerCase ''Mozilla/5.0 (Windows NT 10.0) Chrome/120.0 Safari/537.36 Edg/120.0'') ''firefox''"
    by code_simp
  have c1: "includes_str (toLowerCase ''Mozilla/5.0 (X11; Linux) Chrome/120.0 Safari/537.36'') ''chrome''"
    by code_simp
  have c2: "includes_str (toLowerCase ''Mozilla/5.0 (X11; Linux) Chrome/120.0 Safari/537.36'') ''safari''"
    by code_simp
  have c3: "\<not> includes_str (toLowerCase ''Mozilla/5.0 (X11; Linux) Chrome/120.0 Safari/537.36'') ''edg''"
    by code_simp
  have s1: "includes_str (toLowerCase ''Mozilla/5.0 (Macintosh) Version/17.0 Safari/605.1.15'') ''safari''"
    by code_simp
  have s2: "\<not> includes_str (toLowerCase ''Mozilla/5.0 (Macintosh) Version/17.0 Safari/605.1.15'') ''chrome''"
    by code_simp
  show ?thesis
    using e1 e2 e3 c1 c2 c3 s1 s2
      parseUserAgent_precedence [of "''Mozilla/5.0 (Windows NT 10.0) Chrome/120.0 Safari/537.36 Edg/120.0''"]
      parseUserAgent_precedence [of "''Mozilla/5.0 (X11; Linux) Chrome/120.0 Safari/537.36''"]
      parseUserAgent_precedence [of "''Mozilla/5.0 (Macintosh) Version/17.0 Safari/605.1.15''"]
    by presburger
qed

subsection \<open>C6: loopback and unknown addresses\<close>

text \<open>
  C6. For \<open>127.0.0.1\<close>, \<open>::1\<close>, \<open>Unknown\<close> and the three forms with the prefix
  \<open>::ffff:\<close>, the resolver returns the all-Unknown/null result and requests no URL,
  whatever the outside world would have answered.
\<close>

theorem getGeolocation_loopback:
  "getGeolocation fetch ''127.0.0.1'' = (Inr unknown_geo, [])
   \<and> getGeolocation fetch ''::1'' = (Inr unknown_geo, [])
   \<and> getGeolocation fetch ''Unknown'' = (Inr unknown_geo, [])
   \<and> getGeolocation fetch ''::ffff:127.0.0.1'' = (Inr unknown_geo, [])
   \<and> getGeolocation fetch ''::ffff:::1'' = (Inr unknown_geo, [])
   \<and> getGeolocation fetch ''::ffff:Unknown'' = (Inr unknown_geo, [])"
  by (simp add: getGeolocation_def getGeolocation_try_def)

subsection \<open>C5: the resolver absorbs every failure\<close>

text \<open>
  C5. For every outside world and every IP string the resolver's promise resolves (it is
  never \<open>Inl\<close>), and when the lookup for the cleaned IP ends in a network error, in a
  body that is not JSON, or in a JSON value that is not an object whose \<open>status\<close> is
  \<open>'success'\<close>, the result is the all-Unknown/null result.
\<close>

theorem getGeolocation_absorbs_failure:
  "(\<exists>g. fst (getGeolocation fetch ip) = Inr g)
   \<and> (fetch (''http://ip-api.com/json/'' @ replace ip ''::ffff:'' '''') = NetworkError
        \<or> fetch (''http://ip-api.com/json/'' @ replace ip ''::ffff:'' '''') = NotJson
        \<or> (\<exists>d. fetch (''http://ip-api.com/json/'' @ replace ip ''::ffff:'' '''') = Body d
              \<and> (\<forall>kvs. d = JObj kvs \<longrightarrow> field kvs ''status'' \<noteq> JStr ''success''))
      \<longrightarrow> fst (getGeolocation fetch ip) = Inr unknown_geo)"
  by (auto simp: getGeolocation_def getGeolocation_try_def Let_def
      split: fetch_result.splits jsval.splits)

text \<open>
  A network error, a body that is not JSON, the provider's failure object, and the JSON
  value \<open>null\<close>.
\<close>

theorem getGeolocation_absorbs_failure_witness:
  "fst (getGeolocation (\<lambda>url. NetworkError) ''203.0.113.9'') = Inr unknown_geo
   \<and> fst (getGeolocation (\<lambda>url. NotJson) ''203.0.113.9'') = Inr unknown_geo
   \<and> fst (getGeolocation
            (\<lambda>url. Body (JObj [(''status'', JStr ''fail''), (''message'', JStr ''reserved range'')]))
            ''::ffff:203.0.113.9'') = Inr unknown_geo
   \<and> fst (getGeolocation (\<lambda>url. Body JNull) ''203.0.113.9'') = Inr unknown_geo"
  using getGeolocation_absorbs_failure [of "\<lambda>url. NetworkError" "''203.0.113.9''"]
    getGeolocation_absorbs_failure [of "\<lambda>url. NotJson" "''203.0.113.9''"]
    getGeolocation_absorbs_failure
      [of "\<lambda>url. Body (JObj [(''status'', JStr ''fail''), (''message'', JStr ''reserved range'')])"
          "''::ffff:203.0.113.9''"]
    getGeolocation_absorbs_failure [of "\<lambda>url. Body JNull" "''203.0.113.9''"]
  by (simp add: field_def)

subsection \<open>C10: a coordinate of 0 becomes null\<close>

text \<open>
  C10. When the lookup succeeds (the IP is not short-circuited and the provider's object
  has \<open>status = 'success'\<close>), a latitude of 0 from the provider is returned as \<open>null\<close>,
  and so is a longitude of 0, because \<open>0 || null\<close> is \<open>null\<close>; any other number is
  returned as it is.
\<close>

theorem getGeolocation_zero_coordinate:
  assumes "replace ip ''::ffff:'' '''' \<noteq> ''127.0.0.1''"
    and "replace ip ''::ffff:'' '''' \<noteq> ''::1''"
    and "replace ip ''::ffff:'' '''' \<noteq> ''Unknown''"
    and "fetch (''http://ip-api.com/json/'' @ replace ip ''::ffff:'' '''') = Body (JObj kvs)"
    and "field kvs ''status'' = JStr ''success''"
  shows "\<exists>g. fst (getGeolocation fetch ip) = Inr g
           \<and> (field kvs ''lat'' = JNum 0 \<longrightarrow> geo_latitude g = JNull)
           \<and> (field kvs ''lon'' = JNum 0 \<longrightarrow> geo_longitude g = JNull)
           \<and> (\<forall>x. x \<noteq> 0 \<and> field kvs ''lat'' = JNum x \<longrightarrow> geo_latitude g = JNum x)
           \<and> (\<forall>x. x \<noteq> 0 \<and> field kvs ''lon'' = JNum x \<longrightarrow> geo_longitude g = JNum x)"
  using assms by (simp add: getGeolocation_def getGeolocation_try_def Let_def js_or_def)

text \<open>A place on the prime meridian: the latitude is kept, the longitude is lost.\<close>

theorem getGeolocation_zero_coordinate_witness:
  "replace ''198.51.100.7'' ''::ffff:'' '''' \<noteq> ''127.0.0.1''
   \<and> replace ''198.51.100.7'' ''::ffff:'' '''' \<noteq> ''::1''
   \<and> replace ''198.51.100.7'' ''::ffff:'' '''' \<noteq> ''Unknown''
   \<and> field [(''status'', JStr ''success''), (''city'', JStr ''Greenwich''),
             (''lat'', JNum 51), (''lon'', JNum 0)] ''status'' = JStr ''success''
   \<and> (\<exists>g. fst (getGeolocation
                 (\<lambda>url. Body (JObj [(''status'', JStr ''success''), (''city'', JStr ''Greenwich''),
                                     (''lat'', JNum 51), (''lon'', JNum 0)]))
                 ''198.51.100.7'') = Inr g
          \<and> geo_latitude g = JNum 51 \<and> geo_longitude g = JNull)"
proof -
  have a: "replace ''198.51.100.7'' ''::ffff:'' '''' \<noteq> ''127.0.0.1''"
    and b: "replace ''198.51.100.7'' ''::ffff:'' '''' \<noteq> ''::1''"
    and c: "replace ''198.51.100.7'' ''::ffff:'' '''' \<noteq> ''Unknown''"
    by simp_all
  have st: "field [(''status'', JStr ''success''), (''city'', JStr ''Greenwich''),
                   (''lat'', JNum 51), (''lon'', JNum 0)] ''status'' = JStr ''success''"
    and la: "field [(''status'', JStr ''success''), (''city'', JStr ''Greenwich''),
                   (''lat'', JNum 51), (''lon'', JNum 0)] ''lat'' = JNum 51"
    and lo: "field [(''status'', JStr ''success''), (''city'', JStr ''Greenwich''),
                   (''lat'', JNum 51), (''lon'', JNum 0)] ''lon'' = JNum 0"
    by (simp_all add: field_def)
  have "\<exists>g. fst (getGeolocation
                 (\<lambda>url. Body (JObj [(''status'', JStr ''success''), (''city'', JStr ''Greenwich''),
                                     (''lat'', JNum 51), (''lon'', JNum 0)]))
                 ''198.51.100.7'') = Inr g
          \<and> geo_latitude g = JNum 51 \<and> geo_longitude g = JNull"
    using getGeolocation_zero_coordinate [OF a b c _ st,
        of "\<lambda>url. Body (JObj [(''status'', JStr ''success''), (''city'', JStr ''Greenwich''),
                               (''lat'', JNum 51), (''lon'', JNum 0)])"]
      la lo
    by auto
  with a b c st show ?thesis by blast
qed

subsection \<open>The resolver, the casts and the pushed record\<close>

lemma getGeolocation_resolves: "\<exists>g. fst (getGeolocation fetch ip) = Inr g"
  by (auto simp: getGeolocation_def split: prod.splits completion.splits)

lemma castNumber_port: "castNumber c (port_or_null p) = Some (port_or_null p)"
  by (simp add: port_or_null_def split: option.splits)

lemma cast_record_None_iff:
  "cast_record c r = None \<longleftrightarrow>
     castString c (country r) = None \<or> castString c (city r) = None
     \<or> castString c (region r) = None \<or> castNumber c (latitude r) = None
     \<or> castNumber c (longitude r) = None \<or> castString c (cameraPermission r) = None
     \<or> castString c (locationPermission r) = None \<or> castNumber c (userLatitude r) = None
     \<or> castNumber c (userLongitude r) = None \<or> castNumber c (portNumber r) = None
     \<or> castString c (connectionType r) = None \<or> castString c (screenResolution r) = None
     \<or> castString c (language r) = None \<or> castString c (timezone r) = None"
  by (auto simp: cast_record_def bind_eq_None_conv)

lemma cast_record_Some:
  assumes "cast_record c r = Some r'"
  shows "castString c (country r) = Some (country r')"
    and "castString c (city r) = Some (city r')"
    and "castString c (region r) = Some (region r')"
    and "castNumber c (latitude r) = Some (latitude r')"
    and "castNumber c (longitude r) = Some (longitude r')"
    and "castString c (cameraPermission r) = Some (cameraPermission r')"
    and "castString c (locationPermission r) = Some (locationPermission r')"
    and "castNumber c (userLatitude r) = Some (userLatitude r')"
    and "castNumber c (userLongitude r) = Some (userLongitude r')"
    and "castNumber c (portNumber r) = Some (portNumber r')"
    and "castString c (connectionType r) = Some (connectionType r')"
    and "castString c (screenResolution r) = Some (screenResolution r')"
    and "castString c (language r) = Some (language r')"
    and "castString c (timezone r) = Some (timezone r')"
    and "timestamp r' = timestamp r" and "ipAddress r' = ipAddress r"
    and "userAgent r' = userAgent r" and "browser r' = browser r" and "os r' = os r"
    and "device r' = device r" and "referrer r' = referrer r"
  using assms by (auto simp: cast_record_def bind_eq_Some_conv)

subsection \<open>C7: resolving an unknown link\<close>

text \<open>
  C7, as stated, fails for the handler of \<open>part_000\<close>, line 824: the link is absent, the
  provider answers with a latitude that is no number, the cast of the pushed record
  throws before the database is asked, and the answer is 500, not 404.
\<close>

theorem track_redirect_unknown_link_counterexample:
  "Map.empty (param_linkId example_request) = None
   \<and> fst (track_redirect strict_casts north_answer 1700000000500 1700000000600
            example_request Map.empty) = ServerError
   \<and> fst (track_redirect strict_casts north_answer 1700000000500 1700000000600
            example_request Map.empty) \<noteq> NotFound"
  by (simp add: track_redirect_def Let_def example_request_def getClientIp_def
      split_first_def getGeolocation_def getGeolocation_try_def north_answer_def field_def
      js_or_def cast_record_def strict_casts_def)

text \<open>
  C7, amended. When no link has the identifier of the request, each of the three
  handlers of \<open>GET /track/:linkId\<close> returns the store as it was: no record, no
  increment, no new link. The handlers of \<open>part_000\<close>, line 300, and of
  \<open>src/server.js\<close> answer NotFound. The handler of \<open>part_000\<close>, line 824, answers
  NotFound unless one of the five geolocation values cannot be cast to the type of its
  path; then it answers 500.
\<close>

theorem track_unknown_link:
  assumes "s (param_linkId req) = None"
  shows "track c fetch t_record t_update req s = (NotFound, s)
         \<and> track_counter t_update req s = (NotFound, s)
         \<and> snd (track_redirect c fetch t_record t_update req s) = s
         \<and> (\<exists>g. fst (getGeolocation fetch (getClientIp req)) = Inr g
              \<and> fst (track_redirect c fetch t_record t_update req s) =
                  (if castString c (geo_country g) = None \<or> castString c (geo_city g) = None
                      \<or> castString c (geo_region g) = None
                      \<or> castNumber c (geo_latitude g) = None
                      \<or> castNumber c (geo_longitude g) = None
                   then ServerError else NotFound))"
proof -
  obtain g where g: "fst (getGeolocation fetch (getClientIp req)) = Inr g"
    using getGeolocation_resolves by blast
  have a: "track c fetch t_record t_update req s = (NotFound, s)"
    using assms g by (simp add: track_def Let_def)
  have b: "track_counter t_update req s = (NotFound, s)"
    using assms by (simp add: track_counter_def Let_def)
  define agent where "agent = first_truthy [user_agent req] ''Unknown''"
  define r2 where "r2 =
     \<lparr>timestamp = t_record, ipAddress = getClientIp req,
      country = geo_country g, city = geo_city g, region = geo_region g,
      latitude = geo_latitude g, longitude = geo_longitude g,
      userAgent = agent, browser = ua_browser (parseUserAgent agent),
      os = ua_os (parseUserAgent agent), device = ua_device (parseUserAgent agent),
      referrer = first_truthy [referer req, referrer_header req] ''Direct'',
      cameraPermission = JUndefined, locationPermission = JUndefined,
      userLatitude = JUndefined, userLongitude = JUndefined,
      portNumber = JUndefined, connectionType = JUndefined,
      screenResolution = JUndefined, language = JUndefined, timezone = JUndefined\<rparr>"
  have t: "track_redirect c fetch t_record t_update req s =
             (if cast_record c r2 = None then (ServerError, s) else (NotFound, s))"
    using assms g
    by (simp add: track_redirect_def Let_def r2_def agent_def split: option.splits)
  have n: "cast_record c r2 = None \<longleftrightarrow>
             castString c (geo_country g) = None \<or> castString c (geo_city g) = None
             \<or> castString c (geo_region g) = None \<or> castNumber c (geo_latitude g) = None
             \<or> castNumber c (geo_longitude g) = None"
    by (simp add: cast_record_None_iff r2_def)
  have c: "snd (track_redirect c fetch t_record t_update req s) = s"
    by (simp add: t)
  have d: "fst (track_redirect c fetch t_record t_update req s) =
             (if castString c (geo_country g) = None \<or> castString c (geo_city g) = None
                 \<or> castString c (geo_region g) = None
                 \<or> castNumber c (geo_latitude g) = None
                 \<or> castNumber c (geo_longitude g) = None
              then ServerError else NotFound)"
    unfolding t n by simp
  from a b c d g show ?thesis by blast
qed

text \<open>The example request on the empty store, with a failed lookup.\<close>

theorem track_unknown_link_witness:
  "Map.empty (param_linkId example_request) = None
   \<and> track strict_casts (\<lambda>url. NetworkError) 5 6 example_request Map.empty
       = (NotFound, Map.empty)
   \<and> track_counter 6 example_request Map.empty = (NotFound, Map.empty)
   \<and> snd (track_redirect strict_casts (\<lambda>url. NetworkError) 5 6 example_request Map.empty)
       = Map.empty"
  using track_unknown_link [of Map.empty example_request strict_casts "\<lambda>url. NetworkError" 5 6]
  by simp

subsection \<open>C8: when the enrichment answers NotFound\<close>

text \<open>
  C8. \<open>POST /api/track-update/:linkId\<close> answers NotFound exactly when the link is absent
  or has no click record, and then the store is returned as it was.
\<close>

theorem trackUpdate_not_found:
  "(fst (trackUpdate c lid p s) = NotFound
      \<longleftrightarrow> s lid = None \<or> (\<exists>l. s lid = Some l \<and> clickRecords l = []))
   \<and> (fst (trackUpdate c lid p s) = NotFound \<longrightarrow> snd (trackUpdate c lid p s) = s)"
  by (auto simp: trackUpdate_def Let_def split: option.splits)

text \<open>
  An absent link, a link without records (both NotFound, store unchanged), and a link
  with one record (not NotFound).
\<close>

theorem trackUpdate_not_found_witness:
  "fst (trackUpdate strict_casts ''link_0_missing'' example_payload Map.empty) = NotFound
   \<and> snd (trackUpdate strict_casts ''link_0_missing'' example_payload Map.empty) = Map.empty
   \<and> clickRecords example_link = []
   \<and> fst (trackUpdate strict_casts (linkId example_link) example_payload
            [linkId example_link \<mapsto> example_link]) = NotFound
   \<and> snd (trackUpdate strict_casts (linkId example_link) example_payload
            [linkId example_link \<mapsto> example_link]) = [linkId example_link \<mapsto> example_link]
   \<and> fst (trackUpdate strict_casts (linkId example_link) example_payload example_store)
       \<noteq> NotFound"
  using trackUpdate_not_found [of strict_casts "''link_0_missing''" example_payload Map.empty]
    trackUpdate_not_found [of strict_casts "linkId example_link" example_payload
      "[linkId example_link \<mapsto> example_link]"]
    trackUpdate_not_found [of strict_casts "linkId example_link" example_payload example_store]
  by (simp add: example_link_def example_store_def example_clicked_link_def)

subsection \<open>The merge, step by step\<close>

lemma assign_None_iff: "assign guard cv upd r = None \<longleftrightarrow> guard \<and> cv = None"
  by (simp add: assign_def)

lemma merge_payload_None_iff:
  "merge_payload c p r = None \<longleftrightarrow>
     (p_cameraPermission p \<noteq> JUndefined \<and> castString c (p_cameraPermission p) = None)
     \<or> (p_locationPermission p \<noteq> JUndefined \<and> castString c (p_locationPermission p) = None)
     \<or> (p_userLatitude p \<noteq> JUndefined \<and> p_userLatitude p \<noteq> JNull
          \<and> castNumber c (p_userLatitude p) = None)
     \<or> (p_userLongitude p \<noteq> JUndefined \<and> p_userLongitude p \<noteq> JNull
          \<and> castNumber c (p_userLongitude p) = None)
     \<or> (p_screenResolution p \<noteq> JUndefined \<and> castString c (p_screenResolution p) = None)
     \<or> (p_language p \<noteq> JUndefined \<and> castString c (p_language p) = None)
     \<or> (p_timezone p \<noteq> JUndefined \<and> castString c (p_timezone p) = None)
     \<or> (p_connectionType p \<noteq> JUndefined \<and> castString c (p_connectionType p) = None)"
  unfolding merge_payload_def bind_eq_None_conv assign_None_iff by blast

lemma bind8_Some:
  assumes "do { x1 \<leftarrow> f1 x0; x2 \<leftarrow> f2 x1; x3 \<leftarrow> f3 x2; x4 \<leftarrow> f4 x3; x5 \<leftarrow> f5 x4;
                x6 \<leftarrow> f6 x5; x7 \<leftarrow> f7 x6; f8 x7 } = Some y"
  obtains x1 x2 x3 x4 x5 x6 x7 where "f1 x0 = Some x1" and "f2 x1 = Some x2"
    and "f3 x2 = Some x3" and "f4 x3 = Some x4" and "f5 x4 = Some x5"
    and "f6 x5 = Some x6" and "f7 x6 = Some x7" and "f8 x7 = Some y"
  using assms unfolding bind_eq_Some_conv by blast

lemma assign_Some:
  assumes "assign guard cv upd r = Some r'" and "upd (sel r) r = r"
  obtains a where "r' = upd a r" and "guard \<longrightarrow> cv = Some a"
    and "\<not> guard \<longrightarrow> a = sel r"
proof (cases guard)
  case True
  with assms(1) obtain v where "cv = Some v" and "r' = upd v r"
    by (auto simp: assign_def)
  with True that show ?thesis by blast
next
  case False
  with assms have "r' = upd (sel r) r" by (simp add: assign_def)
  with False that show ?thesis by blast
qed

lemma merge_steps:
  assumes "merge_payload c p r = Some r'"
  obtains r1 r2 r3 r4 r5 r6 r7 where
     "assign (p_cameraPermission p \<noteq> JUndefined) (castString c (p_cameraPermission p))
           (\<lambda>v r. r\<lparr>cameraPermission := v\<rparr>) r = Some r1"
    and "assign (p_locationPermission p \<noteq> JUndefined)
           (castString c (p_locationPermission p))
           (\<lambda>v r. r\<lparr>locationPermission := v\<rparr>) r1 = Some r2"
    and "assign (p_userLatitude p \<noteq> JUndefined \<and> p_userLatitude p \<noteq> JNull)
           (castNumber c (p_userLatitude p)) (\<lambda>v r. r\<lparr>userLatitude := v\<rparr>) r2 = Some r3"
    and "assign (p_userLongitude p \<noteq> JUndefined \<and> p_userLongitude p \<noteq> JNull)
           (castNumber c (p_userLongitude p)) (\<lambda>v r. r\<lparr>userLongitude := v\<rparr>) r3 = Some r4"
    and "assign (p_screenResolution p \<noteq> JUndefined)
           (castString c (p_screenResolution p))
           (\<lambda>v r. r\<lparr>screenResolution := v\<rparr>) r4 = Some r5"
    and "assign (p_language p \<noteq> JUndefined) (castString c (p_language p))
           (\<lambda>v r. r\<lparr>language := v\<rparr>) r5 = Some r6"
    and "assign (p_timezone p \<noteq> JUndefined) (castString c (p_timezone p))
           (\<lambda>v r. r\<lparr>timezone := v\<rparr>) r6 = Some r7"
    and "assign (p_connectionType p \<noteq> JUndefined) (castString c (p_connectionType p))
           (\<lambda>v r. r\<lparr>connectionType := v\<rparr>) r7 = Some r'"
  using assms unfolding merge_payload_def by (rule bind8_Some)

lemma merge_payload_Some:
  assumes "merge_payload c p r = Some r'"
  obtains a b x y d e f h where
    "r' = r\<lparr>cameraPermission := a, locationPermission := b, userLatitude := x,
            userLongitude := y, screenResolution := d, language := e,
            timezone := f, connectionType := h\<rparr>"
    and "p_cameraPermission p \<noteq> JUndefined \<longrightarrow> castString c (p_cameraPermission p) = Some a"
    and "p_cameraPermission p = JUndefined \<longrightarrow> a = cameraPermission r"
    and "p_locationPermission p \<noteq> JUndefined \<longrightarrow>
           castString c (p_locationPermission p) = Some b"
    and "p_locationPermission p = JUndefined \<longrightarrow> b = locationPermission r"
    and "p_userLatitude p \<noteq> JUndefined \<and> p_userLatitude p \<noteq> JNull \<longrightarrow>
           castNumber c (p_userLatitude p) = Some x"
    and "p_userLatitude p = JUndefined \<or> p_userLatitude p = JNull \<longrightarrow> x = userLatitude r"
    and "p_userLongitude p \<noteq> JUndefined \<and> p_userLongitude p \<noteq> JNull \<longrightarrow>
           castNumber c (p_userLongitude p) = Some y"
    and "p_userLongitude p = JUndefined \<or> p_userLongitude p = JNull \<longrightarrow> y = userLongitude r"
    and "p_screenResolution p \<noteq> JUndefined \<longrightarrow>
           castString c (p_screenResolution p) = Some d"
    and "p_screenResolution p = JUndefined \<longrightarrow> d = screenResolution r"
    and "p_language p \<noteq> JUndefined \<longrightarrow> castString c (p_language p) = Some e"
    and "p_language p = JUndefined \<longrightarrow> e = language r"
    and "p_timezone p \<noteq> JUndefined \<longrightarrow> castString c (p_timezone p) = Some f"
    and "p_timezone p = JUndefined \<longrightarrow> f = timezone r"
    and "p_connectionType p \<noteq> JUndefined \<longrightarrow> castString c (p_connectionType p) = Some h"
    and "p_connectionType p = JUndefined \<longrightarrow> h = connectionType r"
proof -
  from assms obtain r1 r2 r3 r4 r5 r6 r7 where
    s1: "assign (p_cameraPermission p \<noteq> JUndefined) (castString c (p_cameraPermission p))
           (\<lambda>v r. r\<lparr>cameraPermission := v\<rparr>) r = Some r1"
    and s2: "assign (p_locationPermission p \<noteq> JUndefined)
           (castString c (p_locationPermission p))
           (\<lambda>v r. r\<lparr>locationPermission := v\<rparr>) r1 = Some r2"
    and s3: "assign (p_userLatitude p \<noteq> JUndefined \<and> p_userLatitude p \<noteq> JNull)
           (castNumber c (p_userLatitude p)) (\<lambda>v r. r\<lparr>userLatitude := v\<rparr>) r2 = Some r3"
    and s4: "assign (p_userLongitude p \<noteq> JUndefined \<and> p_userLongitude p \<noteq> JNull)
           (castNumber c (p_userLongitude p)) (\<lambda>v r. r\<lparr>userLongitude := v\<rparr>) r3 = Some r4"
    and s5: "assign (p_screenResolution p \<noteq> JUndefined)
           (castString c (p_screenResolution p))
           (\<lambda>v r. r\<lparr>screenResolution := v\<rparr>) r4 = Some r5"
    and s6: "assign (p_language p \<noteq> JUndefined) (castString c (p_language p))
           (\<lambda>v r. r\<lparr>language := v\<rparr>) r5 = Some r6"
    and s7: "assign (p_timezone p \<noteq> JUndefined) (castString c (p_timezone p))
           (\<lambda>v r. r\<lparr>timezone := v\<rparr>) r6 = Some r7"
    and s8: "assign (p_connectionType p \<noteq> JUndefined) (castString c (p_connectionType p))
           (\<lambda>v r. r\<lparr>connectionType := v\<rparr>) r7 = Some r'"
    by (rule merge_steps)
  from s1 obtain a where a: "r1 = r\<lparr>cameraPermission := a\<rparr>"
      and a1: "p_cameraPermission p \<noteq> JUndefined \<longrightarrow>
                 castString c (p_cameraPermission p) = Some a"
      and a2: "\<not> p_cameraPermission p \<noteq> JUndefined \<longrightarrow> a = cameraPermission r"
    by (rule assign_Some [where sel = cameraPermission]) simp_all
  from s2 obtain b where b: "r2 = r1\<lparr>locationPermission := b\<rparr>"
      and b1: "p_locationPermission p \<noteq> JUndefined \<longrightarrow>
                 castString c (p_locationPermission p) = Some b"
      and b2: "\<not> p_locationPermission p \<noteq> JUndefined \<longrightarrow> b = locationPermission r1"
    by (rule assign_Some [where sel = locationPermission]) simp_all
  from s3 obtain x where x: "r3 = r2\<lparr>userLatitude := x\<rparr>"
      and x1: "p_userLatitude p \<noteq> JUndefined \<and> p_userLatitude p \<noteq> JNull \<longrightarrow>
                 castNumber c (p_userLatitude p) = Some x"
      and x2: "\<not> (p_userLatitude p \<noteq> JUndefined \<and> p_userLatitude p \<noteq> JNull) \<longrightarrow>
                 x = userLatitude r2"
    by (rule assign_Some [where sel = userLatitude]) simp_all
  from s4 obtain y where y: "r4 = r3\<lparr>userLongitude := y\<rparr>"
      and y1: "p_userLongitude p \<noteq> JUndefined \<and> p_userLongitude p \<noteq> JNull \<longrightarrow>
                 castNumber c (p_userLongitude p) = Some y"
      and y2: "\<not> (p_userLongitude p \<noteq> JUndefined \<and> p_userLongitude p \<noteq> JNull) \<longrightarrow>
                 y = userLongitude r3"
    by (rule assign_Some [where sel = userLongitude]) simp_all
  from s5 obtain d where d: "r5 = r4\<lparr>screenResolution := d\<rparr>"
      and d1: "p_screenResolution p \<noteq> JUndefined \<longrightarrow>
                 castString c (p_screenResolution p) = Some d"
      and d2: "\<not> p_screenResolution p \<noteq> JUndefined \<longrightarrow> d = screenResolution r4"
    by (rule assign_Some [where sel = screenResolution]) simp_all
  from s6 obtain e where e: "r6 = r5\<lparr>language := e\<rparr>"
      and e1: "p_language p \<noteq> JUndefined \<longrightarrow> castString c (p_language p) = Some e"
      and e2: "\<not> p_language p \<noteq> JUndefined \<longrightarrow> e = language r5"
    by (rule assign_Some [where sel = language]) simp_all
  from s7 obtain f where f: "r7 = r6\<lparr>timezone := f\<rparr>"
      and f1: "p_timezone p \<noteq> JUndefined \<longrightarrow> castString c (p_timezone p) = Some f"
      and f2: "\<not> p_timezone p \<noteq> JUndefined \<longrightarrow> f = timezone r6"
    by (rule assign_Some [where sel = timezone]) simp_all
  from s8 obtain h where h: "r' = r7\<lparr>connectionType := h\<rparr>"
      and h1: "p_connectionType p \<noteq> JUndefined \<longrightarrow>
                 castString c (p_connectionType p) = Some h"
      and h2: "\<not> p_connectionType p \<noteq> JUndefined \<longrightarrow> h = connectionType r7"
    by (rule assign_Some [where sel = connectionType]) simp_all
  have eq: "r' = r\<lparr>cameraPermission := a, locationPermission := b, userLatitude := x,
                  userLongitude := y, screenResolution := d, language := e,
                  timezone := f, connectionType := h\<rparr>"
    by (simp add: a b x y d e f h)
  have a3: "p_cameraPermission p = JUndefined \<longrightarrow> a = cameraPermission r"
    using a2 by simp
  have b3: "p_locationPermission p = JUndefined \<longrightarrow> b = locationPermission r"
    using b2 by (simp add: a)
  have x3: "p_userLatitude p = JUndefined \<or> p_userLatitude p = JNull \<longrightarrow> x = userLatitude r"
    using x2 by (auto simp: a b)
  have y3: "p_userLongitude p = JUndefined \<or> p_userLongitude p = JNull \<longrightarrow>
              y = userLongitude r"
    using y2 by (auto simp: a b x)
  have d3: "p_screenResolution p = JUndefined \<longrightarrow> d = screenResolution r"
    using d2 by (simp add: a b x y)
  have e3: "p_language p = JUndefined \<longrightarrow> e = language r"
    using e2 by (simp add: a b x y d)
  have f3: "p_timezone p = JUndefined \<longrightarrow> f = timezone r"
    using f2 by (simp add: a b x y d e)
  have h3: "p_connectionType p = JUndefined \<longrightarrow> h = connectionType r"
    using h2 by (simp add: a b x y d e f)
  from eq a1 a3 b1 b3 x1 x3 y1 y3 d1 d3 e1 e3 f1 f3 h1 h3 show ?thesis
    by (rule that)
qed

lemma update_last:
  "xs \<noteq> [] \<Longrightarrow> xs[length xs - Suc 0 := x] = butlast xs @ [x]"
  by (induction xs rule: rev_induct) auto

lemma trackUpdate_eq:
  assumes "s lid = Some l" and "clickRecords l \<noteq> []"
  shows "trackUpdate c lid p s =
           (case merge_payload c p (last (clickRecords l)) of
              None \<Rightarrow> (ServerError, s)
            | Some merged \<Rightarrow>
                (Success,
                 s(lid \<mapsto> l\<lparr>clickRecords := butlast (clickRecords l) @ [merged]\<rparr>)))"
  using assms
  by (simp add: trackUpdate_def Let_def update_last last_conv_nth split: option.splits)

subsection \<open>The example store\<close>

lemma example_store_link: "example_store (linkId example_link) = Some example_clicked_link"
  by (simp add: example_store_def)

lemma example_clicked_link_records: "clickRecords example_clicked_link = [example_record]"
  by (simp add: example_clicked_link_def)

lemma example_clicked_link_nonempty: "clickRecords example_clicked_link \<noteq> []"
  by (simp add: example_clicked_link_records)

lemma example_update:
  "trackUpdate strict_casts (linkId example_link) example_payload example_store =
     (Success,
      example_store(linkId example_link \<mapsto>
        example_clicked_link\<lparr>clickRecords := [example_enriched_record]\<rparr>))"
  by (simp add: trackUpdate_def Let_def merge_payload_def assign_def example_store_def
      example_clicked_link_def example_payload_def example_record_def
      example_enriched_record_def)

subsection \<open>C9: null coordinates in the payload\<close>




subsection \<open>C3: what the enrichment changes and what it leaves\<close>

text \<open>
  C3, as stated, fails: \<open>userLatitude: null\<close> is present in the payload (it is not
  \<open>undefined\<close>), yet the last record keeps the latitude 12 that an earlier enrichment
  wrote.
\<close>

theorem trackUpdate_null_latitude_counterexample:
  "p_userLatitude example_payload \<noteq> JUndefined
   \<and> userLatitude (last (clickRecords (the (
        snd (trackUpdate strict_casts (linkId example_link)
               (example_payload\<lparr>p_userLatitude := JNum 12\<rparr>) example_store)
          (linkId example_link))))) = JNum 12
   \<and> fst (trackUpdate strict_casts (linkId example_link) example_payload
            (snd (trackUpdate strict_casts (linkId example_link)
                    (example_payload\<lparr>p_userLatitude := JNum 12\<rparr>) example_store)))
       = Success
   \<and> userLatitude (last (clickRecords (the (
        snd (trackUpdate strict_casts (linkId example_link) example_payload
              (snd (trackUpdate strict_casts (linkId example_link)
                      (example_payload\<lparr>p_userLatitude := JNum 12\<rparr>) example_store)))
          (linkId example_link))))) = JNum 12
   \<and> userLatitude (last (clickRecords (the (
        snd (trackUpdate strict_casts (linkId example_link) example_payload
              (snd (trackUpdate strict_casts (linkId example_link)
                      (example_payload\<lparr>p_userLatitude := JNum 12\<rparr>) example_store)))
          (linkId example_link))))) \<noteq> p_userLatitude example_payload"
  by (simp add: trackUpdate_def Let_def merge_payload_def assign_def example_store_def
      example_clicked_link_def example_payload_def example_record_def)

text \<open>
  C3, amended. For a link with at least one record and every payload, the enrichment
  either fails or succeeds. It fails, with the answer 500 and the store as it was,
  exactly when a value that it assigns cannot be cast to the type of its path: one of
  \<open>cameraPermission\<close>, \<open>locationPermission\<close>, \<open>screenResolution\<close>, \<open>language\<close>,
  \<open>timezone\<close>, \<open>connectionType\<close> that is not \<open>undefined\<close> and is no \<open>String\<close>, or one of
  \<open>userLatitude\<close>, \<open>userLongitude\<close> that is neither \<open>undefined\<close> nor \<open>null\<close> and is no
  \<open>Number\<close>. Otherwise it succeeds and replaces the link by one that differs in the
  last record only: there, each of the six fields that the payload has holds the
  payload's value as cast to \<open>String\<close>, each of the two coordinates that the payload has
  and that is not \<open>null\<close> holds the payload's value as cast to \<open>Number\<close>, and every
  other field keeps its value. The earlier records, the number of records, the click
  count, the name, the destination URL and the other fields of the link are unchanged,
  and so is every other link of the store.
\<close>

theorem trackUpdate_frame:
  assumes "s lid = Some l" and "clickRecords l \<noteq> []"
  shows "(fst (trackUpdate c lid p s) = ServerError \<longleftrightarrow>
          (p_cameraPermission p \<noteq> JUndefined \<and> castString c (p_cameraPermission p) = None) \<or>
          (p_locationPermission p \<noteq> JUndefined \<and> castString c (p_locationPermission p) = None) \<or>
          (p_userLatitude p \<noteq> JUndefined \<and> p_userLatitude p \<noteq> JNull \<and> castNumber c (p_userLatitude p) = None) \<or>
          (p_userLongitude p \<noteq> JUndefined \<and> p_userLongitude p \<noteq> JNull \<and> castNumber c (p_userLongitude p) = None) \<or>
          (p_screenResolution p \<noteq> JUndefined \<and> castString c (p_screenResolution p) = None) \<or>
          (p_language p \<noteq> JUndefined \<and> castString c (p_language p) = None) \<or>
          (p_timezone p \<noteq> JUndefined \<and> castString c (p_timezone p) = None) \<or>
          (p_connectionType p \<noteq> JUndefined \<and> castString c (p_connectionType p) = None))
     \<and> (fst (trackUpdate c lid p s) = ServerError \<longrightarrow> snd (trackUpdate c lid p s) = s)
     \<and> (fst (trackUpdate c lid p s) \<noteq> ServerError \<longrightarrow>
         (\<exists>l'. trackUpdate c lid p s = (Success, s(lid \<mapsto> l'))
           \<and> linkId l' = linkId l
           \<and> name l' = name l
           \<and> destinationUrl l' = destinationUrl l
           \<and> clicks l' = clicks l
           \<and> createdAt l' = createdAt l
           \<and> lastClicked l' = lastClicked l
           \<and> length (clickRecords l') = length (clickRecords l)
           \<and> butlast (clickRecords l') = butlast (clickRecords l)
           \<and> (p_cameraPermission p \<noteq> JUndefined \<longrightarrow>
                castString c (p_cameraPermission p) = Some (cameraPermission (last (clickRecords l'))))
           \<and> (p_cameraPermission p = JUndefined \<longrightarrow>
                cameraPermission (last (clickRecords l')) = cameraPermission (last (clickRecords l)))
           \<and> (p_locationPermission p \<noteq> JUndefined \<longrightarrow>
                castString c (p_locationPermission p) = Some (locationPermission (last (clickRecords l'))))
           \<and> (p_locationPermission p = JUndefined \<longrightarrow>
                locationPermission (last (clickRecords l')) = locationPermission (last (clickRecords l)))
           \<and> (p_userLatitude p \<noteq> JUndefined \<and> p_userLatitude p \<noteq> JNull \<longrightarrow>
                castNumber c (p_userLatitude p) = Some (userLatitude (last (clickRecords l'))))
           \<and> (p_userLatitude p = JUndefined \<or> p_userLatitude p = JNull \<longrightarrow>
                userLatitude (last (clickRecords l')) = userLatitude (last (clickRecords l)))
           \<and> (p_userLongitude p \<noteq> JUndefined \<and> p_userLongitude p \<noteq> JNull \<longrightarrow>
                castNumber c (p_userLongitude p) = Some (userLongitude (last (clickRecords l'))))
           \<and> (p_userLongitude p = JUndefined \<or> p_userLongitude p = JNull \<longrightarrow>
                userLongitude (last (clickRecords l')) = userLongitude (last (clickRecords l)))
           \<and> (p_screenResolution p \<noteq> JUndefined \<longrightarrow>
                castString c (p_screenResolution p) = Some (screenResolution (last (clickRecords l'))))
           \<and> (p_screenResolution p = JUndefined \<longrightarrow>
                screenResolution (last (clickRecords l')) = screenResolution (last (clickRecords l)))
           \<and> (p_language p \<noteq> JUndefined \<longrightarrow>
                castString c (p_language p) = Some (language (last (clickRecords l'))))
           \<and> (p_language p = JUndefined \<longrightarrow>
                language (last (clickRecords l')) = language (last (clickRecords l)))
           \<and> (p_timezone p \<noteq> JUndefined \<longrightarrow>
                castString c (p_timezone p) = Some (timezone (last (clickRecords l'))))
           \<and> (p_timezone p = JUndefined \<longrightarrow>
                timezone (last (clickRecords l')) = timezone (last (clickRecords l)))
           \<and> (p_connectionType p \<noteq> JUndefined \<longrightarrow>
                castString c (p_connectionType p) = Some (connectionType (last (clickRecords l'))))
           \<and> (p_connectionType p = JUndefined \<longrightarrow>
                connectionType (last (clickRecords l')) = connectionType (last (clickRecords l)))
           \<and> timestamp (last (clickRecords l')) = timestamp (last (clickRecords l))
           \<and> ipAddress (last (clickRecords l')) = ipAddress (last (clickRecords l))
           \<and> country (last (clickRecords l')) = country (last (clickRecords l))
           \<and> city (last (clickRecords l')) = city (last (clickRecords l))
           \<and> region (last (clickRecords l')) = region (last (clickRecords l))
           \<and> latitude (last (clickRecords l')) = latitude (last (clickRecords l))
           \<and> longitude (last (clickRecords l')) = longitude (last (clickRecords l))
           \<and> userAgent (last (clickRecords l')) = userAgent (last (clickRecords l))
           \<and> browser (last (clickRecords l')) = browser (last (clickRecords l))
           \<and> os (last (clickRecords l')) = os (last (clickRecords l))
           \<and> device (last (clickRecords l')) = device (last (clickRecords l))
           \<and> referrer (last (clickRecords l')) = referrer (last (clickRecords l))
           \<and> portNumber (last (clickRecords l')) = portNumber (last (clickRecords l))))"
    (is "?A \<and> ?B \<and> (?P \<longrightarrow> ?Q)")
proof -
  note eq = trackUpdate_eq [where s = s and lid = lid and l = l and c = c and p = p, OF assms]
  note none = merge_payload_None_iff [of c p "last (clickRecords l)"]
  show ?thesis
  proof (cases "merge_payload c p (last (clickRecords l))")
    case None
    then have "trackUpdate c lid p s = (ServerError, s)"
      using eq by simp
    then show ?thesis
      using None none by simp
  next
    case (Some merged)
    let ?l' = "l\<lparr>clickRecords := butlast (clickRecords l) @ [merged]\<rparr>"
    have res: "trackUpdate c lid p s = (Success, s(lid \<mapsto> ?l'))"
      using eq Some by simp
    from Some obtain a b x y d e f h where
      m: "merged = (last (clickRecords l))\<lparr>cameraPermission := a, locationPermission := b,
              userLatitude := x, userLongitude := y, screenResolution := d, language := e,
              timezone := f, connectionType := h\<rparr>"
      and g_cameraPermission: "p_cameraPermission p \<noteq> JUndefined \<longrightarrow>
          castString c (p_cameraPermission p) = Some a"
      and o_cameraPermission: "p_cameraPermission p = JUndefined \<longrightarrow>
          a = cameraPermission (last (clickRecords l))"
      and g_locationPermission: "p_locationPermission p \<noteq> JUndefined \<longrightarrow>
          castString c (p_locationPermission p) = Some b"
      and o_locationPermission: "p_locationPermission p = JUndefined \<longrightarrow>
          b = locationPermission (last (clickRecords l))"
      and g_userLatitude: "p_userLatitude p \<noteq> JUndefined \<and> p_userLatitude p \<noteq> JNull \<longrightarrow>
          castNumber c (p_userLatitude p) = Some x"
      and o_userLatitude: "p_userLatitude p = JUndefined \<or> p_userLatitude p = JNull \<longrightarrow>
          x = userLatitude (last (clickRecords l))"
      and g_userLongitude: "p_userLongitude p \<noteq> JUndefined \<and> p_userLongitude p \<noteq> JNull \<longrightarrow>
          castNumber c (p_userLongitude p) = Some y"
      and o_userLongitude: "p_userLongitude p = JUndefined \<or> p_userLongitude p = JNull \<longrightarrow>
          y = userLongitude (last (clickRecords l))"
      and g_screenResolution: "p_screenResolution p \<noteq> JUndefined \<longrightarrow>
          castString c (p_screenResolution p) = Some d"
      and o_screenResolution: "p_screenResolution p = JUndefined \<longrightarrow>
          d = screenResolution (last (clickRecords l))"
      and g_language: "p_language p \<noteq> JUndefined \<longrightarrow>
          castString c (p_language p) = Some e"
      and o_language: "p_language p = JUndefined \<longrightarrow>
          e = language (last (clickRecords l))"
      and g_timezone: "p_timezone p \<noteq> JUndefined \<longrightarrow>
          castString c (p_timezone p) = Some f"
      and o_timezone: "p_timezone p = JUndefined \<longrightarrow>
          f = timezone (last (clickRecords l))"
      and g_connectionType: "p_connectionType p \<noteq> JUndefined \<longrightarrow>
          castString c (p_connectionType p) = Some h"
      and o_connectionType: "p_connectionType p = JUndefined \<longrightarrow>
          h = connectionType (last (clickRecords l))"
      by (rule merge_payload_Some)
    have k_linkId: "linkId ?l' = linkId l"
      by simp
    have k_name: "name ?l' = name l"
      by simp
    have k_destinationUrl: "destinationUrl ?l' = destinationUrl l"
      by simp
    have k_clicks: "clicks ?l' = clicks l"
      by simp
    have k_createdAt: "createdAt ?l' = createdAt l"
      by simp
    have k_lastClicked: "lastClicked ?l' = lastClicked l"
      by simp
    have k_len: "length (clickRecords ?l') = length (clickRecords l)"
      using assms(2) by simp
    have k_but: "butlast (clickRecords ?l') = butlast (clickRecords l)"
      by simp
    have w_cameraPermission: "(p_cameraPermission p \<noteq> JUndefined \<longrightarrow>
        castString c (p_cameraPermission p) = Some (cameraPermission (last (clickRecords ?l'))))"
      using g_cameraPermission by (simp add: m)
    have n_cameraPermission: "(p_cameraPermission p = JUndefined \<longrightarrow>
        cameraPermission (last (clickRecords ?l')) = cameraPermission (last (clickRecords l)))"
      using o_cameraPermission by (simp add: m)
    have w_locationPermission: "(p_locationPermission p \<noteq> JUndefined \<longrightarrow>
        castString c (p_locationPermission p) = Some (locationPermission (last (clickRecords ?l'))))"
      using g_locationPermission by (simp add: m)
    have n_locationPermission: "(p_locationPermission p = JUndefined \<longrightarrow>
        locationPermission (last (clickRecords ?l')) = locationPermission (last (clickRecords l)))"
      using o_locationPermission by (simp add: m)
    have w_userLatitude: "(p_userLatitude p \<noteq> JUndefined \<and> p_userLatitude p \<noteq> JNull \<longrightarrow>
        castNumber c (p_userLatitude p) = Some (userLatitude (last (clickRecords ?l'))))"
      using g_userLatitude by (simp add: m)
    have n_userLatitude: "(p_userLatitude p = JUndefined \<or> p_userLatitude p = JNull \<longrightarrow>
        userLatitude (last (clickRecords ?l')) = userLatitude (last (clickRecords l)))"
      using o_userLatitude by (simp add: m)
    have w_userLongitude: "(p_userLongitude p \<noteq> JUndefined \<and> p_userLongitude p \<noteq> JNull \<longrightarrow>
        castNumber c (p_userLongitude p) = Some (userLongitude (last (clickRecords ?l'))))"
      using g_userLongitude by (simp add: m)
    have n_userLongitude: "(p_userLongitude p = JUndefined \<or> p_userLongitude p = JNull \<longrightarrow>
        userLongitude (last (clickRecords ?l')) = userLongitude (last (clickRecords l)))"
      using o_userLongitude by (simp add: m)
    have w_screenResolution: "(p_screenResolution p \<noteq> JUndefined \<longrightarrow>
        castString c (p_screenResolution p) = Some (screenResolution (last (clickRecords ?l'))))"
      using g_screenResolution by (simp add: m)
    have n_screenResolution: "(p_screenResolution p = JUndefined \<longrightarrow>
        screenResolution (last (clickRecords ?l')) = screenResolution (last (clickRecords l)))"
      using o_screenResolution by (simp add: m)
    have w_language: "(p_language p \<noteq> JUndefined \<longrightarrow>
        castString c (p_language p) = Some (language (last (clickRecords ?l'))))"
      using g_language by (simp add: m)
    have n_language: "(p_language p = JUndefined \<longrightarrow>
        language (last (clickRecords ?l')) = language (last (clickRecords l)))"
      using o_language by (simp add: m)
    have w_timezone: "(p_timezone p \<noteq> JUndefined \<longrightarrow>
        castString c (p_timezone p) = Some (timezone (last (clickRecords ?l'))))"
      using g_timezone by (simp add: m)
    have n_timezone: "(p_timezone p = JUndefined \<longrightarrow>
        timezone (last (clickRecords ?l')) = timezone (last (clickRecords l)))"
      using o_timezone by (simp add: m)
    have w_connectionType: "(p_connectionType p \<noteq> JUndefined \<longrightarrow>
        castString c (p_connectionType p) = Some (connectionType (last (clickRecords ?l'))))"
      using g_connectionType by (simp add: m)
    have n_connectionType: "(p_connectionType p = JUndefined \<longrightarrow>
        connectionType (last (clickRecords ?l')) = connectionType (last (clickRecords l)))"
      using o_connectionType by (simp add: m)
    have u_timestamp: "timestamp (last (clickRecords ?l')) = timestamp (last (clickRecords l))"
      by (simp add: m)
    have u_ipAddress: "ipAddress (last (clickRecords ?l')) = ipAddress (last (clickRecords l))"
      by (simp add: m)
    have u_country: "country (last (clickRecords ?l')) = country (last (clickRecords l))"
      by (simp add: m)
    have u_city: "city (last (clickRecords ?l')) = city (last (clickRecords l))"
      by (simp add: m)
    have u_region: "region (last (clickRecords ?l')) = region (last (clickRecords l))"
      by (simp add: m)
    have u_latitude: "latitude (last (clickRecords ?l')) = latitude (last (clickRecords l))"
      by (simp add: m)
    have u_longitude: "longitude (last (clickRecords ?l')) = longitude (last (clickRecords l))"
      by (simp add: m)
    have u_userAgent: "userAgent (last (clickRecords ?l')) = userAgent (last (clickRecords l))"
      by (simp add: m)
    have u_browser: "browser (last (clickRecords ?l')) = browser (last (clickRecords l))"
      by (simp add: m)
    have u_os: "os (last (clickRecords ?l')) = os (last (clickRecords l))"
      by (simp add: m)
    have u_device: "device (last (clickRecords ?l')) = device (last (clickRecords l))"
      by (simp add: m)
    have u_referrer: "referrer (last (clickRecords ?l')) = referrer (last (clickRecords l))"
      by (simp add: m)
    have u_portNumber: "portNumber (last (clickRecords ?l')) = portNumber (last (clickRecords l))"
      by (simp add: m)
    have aa: "?A"
      using res Some none by simp
    have bb: "?B"
      using res by simp
    have q: "?Q"
      by (rule exI [of _ ?l'], intro conjI)
        (fact res k_linkId k_name k_destinationUrl k_clicks k_createdAt k_lastClicked k_len k_but w_cameraPermission n_cameraPermission w_locationPermission n_locationPermission w_userLatitude n_userLatitude w_userLongitude n_userLongitude w_screenResolution n_screenResolution w_language n_language w_timezone n_timezone w_connectionType n_connectionType u_timestamp u_ipAddress u_country u_city u_region u_latitude u_longitude u_userAgent u_browser u_os u_device u_referrer u_portNumber)+
    have cc: "?P \<longrightarrow> ?Q"
      by (intro impI) (rule q)
    from aa bb cc show ?thesis by blast
  qed
qed

text \<open>The example payload on the example store: the enrichment succeeds.\<close>

theorem trackUpdate_frame_witness:
  "example_store (linkId example_link) = Some example_clicked_link
   \<and> clickRecords example_clicked_link \<noteq> []
   \<and> fst (trackUpdate strict_casts (linkId example_link) example_payload example_store)
       \<noteq> ServerError
   \<and> trackUpdate strict_casts (linkId example_link) example_payload example_store =
       (Success,
        example_store(linkId example_link \<mapsto>
          example_clicked_link\<lparr>clickRecords := [example_enriched_record]\<rparr>))
   \<and> cameraPermission example_enriched_record = JStr ''granted''
   \<and> userLatitude example_enriched_record = userLatitude example_record
   \<and> timezone example_enriched_record = timezone example_record
   \<and> connectionType example_enriched_record = JNull
   \<and> ipAddress example_enriched_record = ipAddress example_record"
  using trackUpdate_frame
      [where s = example_store and lid = "linkId example_link" and l = example_clicked_link
         and c = strict_casts and p = example_payload,
       OF example_store_link example_clicked_link_nonempty]
    example_store_link example_clicked_link_nonempty example_update
  by (simp add: example_payload_def example_enriched_record_def)

subsection \<open>The example click\<close>

lemma example_click:
  "track strict_casts (\<lambda>url. NetworkError) 1700000000500 1700000000600 example_request
      [linkId example_link \<mapsto> example_link]
   = (Interstitial ''https://example.com/'', example_store)"
  by (simp add: track_def Let_def example_request_def example_link_def example_store_def
      example_clicked_link_def
      example_record_def getClientIp_def split_first_def getGeolocation_def
      getGeolocation_try_def unknown_geo_def parseUserAgent_def toLowerCase_def lower_char_def
      port_or_null_def cast_record_def)

lemma example_create:
  "createLink ''1700000000000'' ''k3x9q2m1z'' 1700000000000 (Some ''Promo'')
      (Some ''https://example.com/'') Map.empty
   = (Created example_link, [linkId example_link \<mapsto> example_link])"
  by (simp add: createLink_def Let_def example_link_def)

lemma example_store_reachable: "reachable example_store"
proof -
  have "reachable (snd (createLink ''1700000000000'' ''k3x9q2m1z'' 1700000000000 (Some ''Promo'')
      (Some ''https://example.com/'') Map.empty))"
    by (rule reachable.create) (rule reachable.start)
  then have "reachable [linkId example_link \<mapsto> example_link]"
    by (simp add: example_create)
  then have "reachable (snd (track strict_casts (\<lambda>url. NetworkError) 1700000000500
      1700000000600 example_request [linkId example_link \<mapsto> example_link]))"
    by (rule reachable.click)
  then show ?thesis by (simp add: example_click)
qed

subsection \<open>C2: what one resolution writes\<close>

text \<open>
  C2, as stated, fails for the handler of \<open>src/server.js\<close>: a resolution of an
  existing link succeeds (it redirects) and increments the counter, but the history of
  the link is as long as before; no record is appended.
\<close>

theorem track_counter_no_record_counterexample:
  "[linkId example_link \<mapsto> example_link] (param_linkId example_request) = Some example_link
   \<and> fst (track_counter 1700000000600 example_request [linkId example_link \<mapsto> example_link])
       = Redirect ''https://example.com/''
   \<and> clickRecords (the (snd (track_counter 1700000000600 example_request
                              [linkId example_link \<mapsto> example_link])
                         (linkId example_link)))
       = clickRecords example_link
   \<and> length (clickRecords (the (snd (track_counter 1700000000600 example_request
                                      [linkId example_link \<mapsto> example_link])
                                 (linkId example_link))))
       \<noteq> length (clickRecords example_link) + 1"
  by (simp add: track_counter_def Let_def example_request_def example_link_def)

text \<open>
  C2, amended. For every existing link, a resolution of \<open>GET /track/:linkId\<close> through
  the handler of \<open>part_000\<close>, line 300, or of line 824 fails, with the answer 500 and the
  store as it was, exactly when one of the five geolocation values of the resolver
  cannot be cast to the type of its path (\<open>String\<close> for country, city and region,
  \<open>Number\<close> for latitude and longitude). Otherwise the resolution succeeds: it increments
  the click count by exactly 1, sets the last-clicked time, leaves the identifier, the
  name, the destination URL and the creation time as they were, and appends exactly one
  record, whose geolocation fields are the resolver's values as cast. The record of the
  handler of line 300 has \<open>cameraPermission\<close> and \<open>locationPermission\<close> at
  \<open>'not_requested'\<close>, \<open>screenResolution\<close>, \<open>language\<close>, \<open>timezone\<close> and
  \<open>connectionType\<close> at \<open>'Unknown'\<close>, and no user coordinates; the record of the handler
  of line 824 has none of the client-side fields. The handler of \<open>src/server.js\<close> always
  succeeds, increments the click count by 1 and sets the last-clicked time, and appends
  nothing.
\<close>

theorem track_appends_one_record:
  assumes "s (param_linkId req) = Some l"
  shows "(\<exists>g. fst (getGeolocation fetch (getClientIp req)) = Inr g
          \<and> (fst (track c fetch t_record t_update req s) = ServerError \<longleftrightarrow>
               castString c (geo_country g) = None \<or> castString c (geo_city g) = None
               \<or> castString c (geo_region g) = None \<or> castNumber c (geo_latitude g) = None
               \<or> castNumber c (geo_longitude g) = None)
          \<and> (fst (track c fetch t_record t_update req s) = ServerError \<longrightarrow>
               snd (track c fetch t_record t_update req s) = s)
          \<and> (fst (track c fetch t_record t_update req s) \<noteq> ServerError \<longrightarrow>
               (\<exists>r l'. track c fetch t_record t_update req s =
                    (Interstitial (destinationUrl l), s(param_linkId req \<mapsto> l'))
                \<and> clicks l' = clicks l + 1 \<and> lastClicked l' = Some t_update
                \<and> clickRecords l' = clickRecords l @ [r]
                \<and> linkId l' = linkId l \<and> name l' = name l
                \<and> destinationUrl l' = destinationUrl l \<and> createdAt l' = createdAt l
                \<and> cameraPermission r = JStr ''not_requested''
                \<and> locationPermission r = JStr ''not_requested''
                \<and> screenResolution r = JStr ''Unknown'' \<and> language r = JStr ''Unknown''
                \<and> timezone r = JStr ''Unknown'' \<and> connectionType r = JStr ''Unknown''
                \<and> userLatitude r = JUndefined \<and> userLongitude r = JUndefined
                \<and> portNumber r = port_or_null (remotePort req)
                \<and> timestamp r = t_record \<and> ipAddress r = getClientIp req
                \<and> castString c (geo_country g) = Some (country r)
                \<and> castString c (geo_city g) = Some (city r)
                \<and> castString c (geo_region g) = Some (region r)
                \<and> castNumber c (geo_latitude g) = Some (latitude r)
                \<and> castNumber c (geo_longitude g) = Some (longitude r)
                \<and> userAgent r = first_truthy [user_agent req] ''Unknown''
                \<and> browser r = ua_browser (parseUserAgent (userAgent r))
                \<and> os r = ua_os (parseUserAgent (userAgent r))
                \<and> device r = ua_device (parseUserAgent (userAgent r))
                \<and> referrer r = first_truthy [referer req, referrer_header req] ''Direct'')))
       \<and> (\<exists>g. fst (getGeolocation fetch (getClientIp req)) = Inr g
          \<and> (fst (track_redirect c fetch t_record t_update req s) = ServerError \<longleftrightarrow>
               castString c (geo_country g) = None \<or> castString c (geo_city g) = None
               \<or> castString c (geo_region g) = None \<or> castNumber c (geo_latitude g) = None
               \<or> castNumber c (geo_longitude g) = None)
          \<and> (fst (track_redirect c fetch t_record t_update req s) = ServerError \<longrightarrow>
               snd (track_redirect c fetch t_record t_update req s) = s)
          \<and> (fst (track_redirect c fetch t_record t_update req s) \<noteq> ServerError \<longrightarrow>
               (\<exists>r l'. track_redirect c fetch t_record t_update req s =
                    (Redirect (destinationUrl l), s(param_linkId req \<mapsto> l'))
                \<and> clicks l' = clicks l + 1 \<and> lastClicked l' = Some t_update
                \<and> clickRecords l' = clickRecords l @ [r]
                \<and> linkId l' = linkId l \<and> name l' = name l
                \<and> destinationUrl l' = destinationUrl l \<and> createdAt l' = createdAt l
                \<and> cameraPermission r = JUndefined \<and> locationPermission r = JUndefined
                \<and> screenResolution r = JUndefined \<and> language r = JUndefined
                \<and> timezone r = JUndefined \<and> connectionType r = JUndefined
                \<and> userLatitude r = JUndefined \<and> userLongitude r = JUndefined
                \<and> portNumber r = JUndefined
                \<and> timestamp r = t_record \<and> ipAddress r = getClientIp req
                \<and> castString c (geo_country g) = Some (country r)
                \<and> castString c (geo_city g) = Some (city r)
                \<and> castString c (geo_region g) = Some (region r)
                \<and> castNumber c (geo_latitude g) = Some (latitude r)
                \<and> castNumber c (geo_longitude g) = Some (longitude r)
                \<and> userAgent r = first_truthy [user_agent req] ''Unknown''
                \<and> browser r = ua_browser (parseUserAgent (userAgent r))
                \<and> os r = ua_os (parseUserAgent (userAgent r))
                \<and> device r = ua_device (parseUserAgent (userAgent r))
                \<and> referrer r = first_truthy [referer req, referrer_header req] ''Direct'')))
       \<and> (\<exists>l'. track_counter t_update req s =
                (Redirect (destinationUrl l), s(param_linkId req \<mapsto> l'))
            \<and> clicks l' = clicks l + 1 \<and> lastClicked l' = Some t_update
            \<and> clickRecords l' = clickRecords l
            \<and> linkId l' = linkId l \<and> name l' = name l
            \<and> destinationUrl l' = destinationUrl l \<and> createdAt l' = createdAt l)"
    (is "?A \<and> ?B \<and> ?C")
proof -
  obtain g where g: "fst (getGeolocation fetch (getClientIp req)) = Inr g"
    using getGeolocation_resolves by blast
  define agent where "agent = first_truthy [user_agent req] ''Unknown''"
  define r1 where "r1 =
     \<lparr>timestamp = t_record, ipAddress = getClientIp req,
      country = geo_country g, city = geo_city g, region = geo_region g,
      latitude = geo_latitude g, longitude = geo_longitude g,
      userAgent = agent, browser = ua_browser (parseUserAgent agent),
      os = ua_os (parseUserAgent agent), device = ua_device (parseUserAgent agent),
      referrer = first_truthy [referer req, referrer_header req] ''Direct'',
      cameraPermission = JStr ''not_requested'', locationPermission = JStr ''not_requested'',
      userLatitude = JUndefined, userLongitude = JUndefined,
      portNumber = port_or_null (remotePort req), connectionType = JStr ''Unknown'',
      screenResolution = JStr ''Unknown'', language = JStr ''Unknown'',
      timezone = JStr ''Unknown''\<rparr>"
  define r2 where "r2 =
     \<lparr>timestamp = t_record, ipAddress = getClientIp req,
      country = geo_country g, city = geo_city g, region = geo_region g,
      latitude = geo_latitude g, longitude = geo_longitude g,
      userAgent = agent, browser = ua_browser (parseUserAgent agent),
      os = ua_os (parseUserAgent agent), device = ua_device (parseUserAgent agent),
      referrer = first_truthy [referer req, referrer_header req] ''Direct'',
      cameraPermission = JUndefined, locationPermission = JUndefined,
      userLatitude = JUndefined, userLongitude = JUndefined,
      portNumber = JUndefined, connectionType = JUndefined,
      screenResolution = JUndefined, language = JUndefined, timezone = JUndefined\<rparr>"
  let ?l' = "\<lambda>r. l\<lparr>clicks := clicks l + 1, lastClicked := Some t_update,
                     clickRecords := clickRecords l @ [r]\<rparr>"
  have t1: "track c fetch t_record t_update req s =
              (case cast_record c r1 of
                 None \<Rightarrow> (ServerError, s)
               | Some pushed \<Rightarrow>
                   (Interstitial (destinationUrl l), s(param_linkId req \<mapsto> ?l' pushed)))"
    using assms g by (simp add: track_def Let_def r1_def agent_def)
  have t2: "track_redirect c fetch t_record t_update req s =
              (case cast_record c r2 of
                 None \<Rightarrow> (ServerError, s)
               | Some pushed \<Rightarrow>
                   (Redirect (destinationUrl l), s(param_linkId req \<mapsto> ?l' pushed)))"
    using assms g
    by (simp add: track_redirect_def Let_def r2_def agent_def split: option.splits)
  have t3: "track_counter t_update req s =
              (Redirect (destinationUrl l),
               s(param_linkId req \<mapsto> l\<lparr>clicks := clicks l + 1, lastClicked := Some t_update\<rparr>))"
    using assms by (simp add: track_counter_def Let_def)
  have n1: "cast_record c r1 = None \<longleftrightarrow>
               castString c (geo_country g) = None \<or> castString c (geo_city g) = None
               \<or> castString c (geo_region g) = None \<or> castNumber c (geo_latitude g) = None
               \<or> castNumber c (geo_longitude g) = None"
    by (simp add: cast_record_None_iff r1_def castNumber_port)
  have n2: "cast_record c r2 = None \<longleftrightarrow>
               castString c (geo_country g) = None \<or> castString c (geo_city g) = None
               \<or> castString c (geo_region g) = None \<or> castNumber c (geo_latitude g) = None
               \<or> castNumber c (geo_longitude g) = None"
    by (simp add: cast_record_None_iff r2_def)
  have a: "?A"
  proof (cases "cast_record c r1")
    case None
    then show ?thesis
      using g t1 n1 by (intro exI [of _ g]) simp
  next
    case (Some pushed)
    note f = cast_record_Some [OF Some, unfolded r1_def, simplified, folded agent_def]
    have ok: "\<not> (castString c (geo_country g) = None \<or> castString c (geo_city g) = None
               \<or> castString c (geo_region g) = None \<or> castNumber c (geo_latitude g) = None
               \<or> castNumber c (geo_longitude g) = None)"
      using n1 Some by simp
    have eq: "track c fetch t_record t_update req s =
                (Interstitial (destinationUrl l), s(param_linkId req \<mapsto> ?l' pushed))"
      using t1 Some by simp
    have inner: "\<exists>r l'. track c fetch t_record t_update req s =
                    (Interstitial (destinationUrl l), s(param_linkId req \<mapsto> l'))
                \<and> clicks l' = clicks l + 1 \<and> lastClicked l' = Some t_update
                \<and> clickRecords l' = clickRecords l @ [r]
                \<and> linkId l' = linkId l \<and> name l' = name l
                \<and> destinationUrl l' = destinationUrl l \<and> createdAt l' = createdAt l
                \<and> cameraPermission r = JStr ''not_requested''
                \<and> locationPermission r = JStr ''not_requested''
                \<and> screenResolution r = JStr ''Unknown'' \<and> language r = JStr ''Unknown''
                \<and> timezone r = JStr ''Unknown'' \<and> connectionType r = JStr ''Unknown''
                \<and> userLatitude r = JUndefined \<and> userLongitude r = JUndefined
                \<and> portNumber r = port_or_null (remotePort req)
                \<and> timestamp r = t_record \<and> ipAddress r = getClientIp req
                \<and> castString c (geo_country g) = Some (country r)
                \<and> castString c (geo_city g) = Some (city r)
                \<and> castString c (geo_region g) = Some (region r)
                \<and> castNumber c (geo_latitude g) = Some (latitude r)
                \<and> castNumber c (geo_longitude g) = Some (longitude r)
                \<and> userAgent r = first_truthy [user_agent req] ''Unknown''
                \<and> browser r = ua_browser (parseUserAgent (userAgent r))
                \<and> os r = ua_os (parseUserAgent (userAgent r))
                \<and> device r = ua_device (parseUserAgent (userAgent r))
                \<and> referrer r = first_truthy [referer req, referrer_header req] ''Direct''"
      using eq f
      by (intro exI [of _ pushed] exI [of _ "?l' pushed"])
        (simp add: agent_def castNumber_port)
    show ?thesis
      using g ok eq inner by (intro exI [of _ g]) simp
  qed
  have b: "?B"
  proof (cases "cast_record c r2")
    case None
    then show ?thesis
      using g t2 n2 by (intro exI [of _ g]) simp
  next
    case (Some pushed)
    note f = cast_record_Some [OF Some, unfolded r2_def, simplified, folded agent_def]
    have ok: "\<not> (castString c (geo_country g) = None \<or> castString c (geo_city g) = None
               \<or> castString c (geo_region g) = None \<or> castNumber c (geo_latitude g) = None
               \<or> castNumber c (geo_longitude g) = None)"
      using n2 Some by simp
    have eq: "track_redirect c fetch t_record t_update req s =
                (Redirect (destinationUrl l), s(param_linkId req \<mapsto> ?l' pushed))"
      using t2 Some by simp
    have inner: "\<exists>r l'. track_redirect c fetch t_record t_update req s =
                    (Redirect (destinationUrl l), s(param_linkId req \<mapsto> l'))
                \<and> clicks l' = clicks l + 1 \<and> lastClicked l' = Some t_update
                \<and> clickRecords l' = clickRecords l @ [r]
                \<and> linkId l' = linkId l \<and> name l' = name l
                \<and> destinationUrl l' = destinationUrl l \<and> createdAt l' = createdAt l
                \<and> cameraPermission r = JUndefined \<and> locationPermission r = JUndefined
                \<and> screenResolution r = JUndefined \<and> language r = JUndefined
                \<and> timezone r = JUndefined \<and> connectionType r = JUndefined
                \<and> userLatitude r = JUndefined \<and> userLongitude r = JUndefined
                \<and> portNumber r = JUndefined
                \<and> timestamp r = t_record \<and> ipAddress r = getClientIp req
                \<and> castString c (geo_country g) = Some (country r)
                \<and> castString c (geo_city g) = Some (city r)
                \<and> castString c (geo_region g) = Some (region r)
                \<and> castNumber c (geo_latitude g) = Some (latitude r)
                \<and> castNumber c (geo_longitude g) = Some (longitude r)
                \<and> userAgent r = first_truthy [user_agent req] ''Unknown''
                \<and> browser r = ua_browser (parseUserAgent (userAgent r))
                \<and> os r = ua_os (parseUserAgent (userAgent r))
                \<and> device r = ua_device (parseUserAgent (userAgent r))
                \<and> referrer r = first_truthy [referer req, referrer_header req] ''Direct''"
      using eq f
      by (intro exI [of _ pushed] exI [of _ "?l' pushed"]) (simp add: agent_def)
    show ?thesis
      using g ok eq inner by (intro exI [of _ g]) simp
  qed
  have c: "?C"
    using t3
    by (intro exI [of _ "l\<lparr>clicks := clicks l + 1, lastClicked := Some t_update\<rparr>"]) simp
  from a b c show ?thesis by blast
qed

text \<open>The example click, through each of the three handlers.\<close>

theorem track_appends_one_record_witness:
  "[linkId example_link \<mapsto> example_link] (param_linkId example_request) = Some example_link
   \<and> track strict_casts (\<lambda>url. NetworkError) 1700000000500 1700000000600 example_request
         [linkId example_link \<mapsto> example_link]
       = (Interstitial ''https://example.com/'', example_store)
   \<and> clicks example_clicked_link = clicks example_link + 1
   \<and> clickRecords example_clicked_link = clickRecords example_link @ [example_record]
   \<and> cameraPermission example_record = JStr ''not_requested''
   \<and> fst (track_redirect strict_casts (\<lambda>url. NetworkError) 1700000000500 1700000000600
            example_request [linkId example_link \<mapsto> example_link])
       = Redirect ''https://example.com/''
   \<and> track_counter 1700000000600 example_request [linkId example_link \<mapsto> example_link]
       = (Redirect ''https://example.com/'',
          [linkId example_link \<mapsto>
             example_link\<lparr>clicks := 1, lastClicked := Some 1700000000600\<rparr>])"
proof -
  have h: "[linkId example_link \<mapsto> example_link] (param_linkId example_request)
             = Some example_link"
    by (simp add: example_link_def example_request_def)
  have rest:
    "clicks example_clicked_link = clicks example_link + 1
     \<and> clickRecords example_clicked_link = clickRecords example_link @ [example_record]
     \<and> cameraPermission example_record = JStr ''not_requested''"
    by (simp add: example_clicked_link_def example_link_def example_record_def)
  have red:
    "fst (track_redirect strict_casts (\<lambda>url. NetworkError) 1700000000500 1700000000600
            example_request [linkId example_link \<mapsto> example_link])
       = Redirect ''https://example.com/''"
    by (simp add: track_redirect_def Let_def example_request_def example_link_def
        getClientIp_def split_first_def getGeolocation_def getGeolocation_try_def
        unknown_geo_def cast_record_def)
  have cnt:
    "track_counter 1700000000600 example_request [linkId example_link \<mapsto> example_link]
       = (Redirect ''https://example.com/'',
          [linkId example_link \<mapsto>
             example_link\<lparr>clicks := 1, lastClicked := Some 1700000000600\<rparr>])"
    by (simp add: track_counter_def Let_def example_request_def example_link_def)
  show ?thesis
    using h example_click rest red cnt
      track_appends_one_record
        [where s = "[linkId example_link \<mapsto> example_link]" and req = example_request
           and l = example_link and fetch = "\<lambda>url. NetworkError" and c = strict_casts
           and t_record = 1700000000500 and t_update = 1700000000600, OF h]
    by simp
qed

subsection \<open>C1: the click count and the length of the history\<close>

text \<open>
  C1, as stated, fails for the handler of \<open>src/server.js\<close>: after a link is created
  and resolved once through it, the click count is 1 and the history is empty.
\<close>

theorem track_counter_count_counterexample:
  "clicks (the (snd (track_counter 1700000000600 example_request
                      (snd (createLink ''1700000000000'' ''k3x9q2m1z'' 1700000000000
                              (Some ''Promo'') (Some ''https://example.com/'') Map.empty)))
                 (linkId example_link))) = 1
   \<and> length (clickRecords (the (snd (track_counter 1700000000600 example_request
                      (snd (createLink ''1700000000000'' ''k3x9q2m1z'' 1700000000000
                              (Some ''Promo'') (Some ''https://example.com/'') Map.empty)))
                 (linkId example_link)))) = 0"
  by (simp add: example_create track_counter_def Let_def example_request_def example_link_def)

lemma createLink_keeps:
  assumes "\<And>k l. s k = Some l \<Longrightarrow> clicks l = length (clickRecords l)"
    and "snd (createLink stamp rnd now n u s) k = Some l"
  shows "clicks l = length (clickRecords l)"
  using assms
  by (auto simp: createLink_def Let_def split: option.splits if_splits)

lemma deleteLink_keeps:
  assumes "\<And>k l. s k = Some l \<Longrightarrow> clicks l = length (clickRecords l)"
    and "snd (deleteLink lid s) k = Some l"
  shows "clicks l = length (clickRecords l)"
  using assms by (auto simp: deleteLink_def split: if_splits)

lemma track_keeps:
  assumes "\<And>k l. s k = Some l \<Longrightarrow> clicks l = length (clickRecords l)"
    and "snd (track c fetch t_record t_update req s) k = Some l"
  shows "clicks l = length (clickRecords l)"
  using assms
  by (auto simp: track_def Let_def split: sum.splits option.splits if_splits)

lemma track_redirect_keeps:
  assumes "\<And>k l. s k = Some l \<Longrightarrow> clicks l = length (clickRecords l)"
    and "snd (track_redirect c fetch t_record t_update req s) k = Some l"
  shows "clicks l = length (clickRecords l)"
  using assms
  by (auto simp: track_redirect_def Let_def split: sum.splits option.splits if_splits)

lemma trackUpdate_keeps:
  assumes "\<And>k l. s k = Some l \<Longrightarrow> clicks l = length (clickRecords l)"
    and "snd (trackUpdate c lid p s) k = Some l"
  shows "clicks l = length (clickRecords l)"
  using assms
  by (auto simp: trackUpdate_def Let_def split: option.splits if_splits)

text \<open>
  C1, amended. In every store that arises from the empty one by the write operations of
  \<open>src/unnamed/part_000\<close> (link creation, link deletion, click resolution through the
  handler of line 300 or of line 824, deferred enrichment), the click count of every
  link equals the length of its history. The handler of \<open>src/server.js\<close>, which
  keeps no history, is excluded.
\<close>

theorem reachable_counts_agree:
  assumes "reachable s" and "s lid = Some l"
  shows "clicks l = length (clickRecords l)"
  using assms
proof (induction arbitrary: lid l rule: reachable.induct)
  case start
  then show ?case by simp
next
  case (create s stamp rnd now n u)
  then show ?case using createLink_keeps by blast
next
  case (delete s k)
  then show ?case using deleteLink_keeps by blast
next
  case (click s c fetch t_record t_update req)
  then show ?case using track_keeps by blast
next
  case (click_redirect s c fetch t_record t_update req)
  then show ?case using track_redirect_keeps by blast
next
  case (enrich s c k p)
  then show ?case using trackUpdate_keeps by blast
qed

text \<open>The example store: one link, created and then clicked once.\<close>

theorem reachable_counts_agree_witness:
  "reachable example_store
   \<and> example_store (linkId example_link) = Some example_clicked_link
   \<and> clicks example_clicked_link = 1
   \<and> length (clickRecords example_clicked_link) = 1"
  using reachable_counts_agree [OF example_store_reachable example_store_link]
    example_store_reachable example_store_link
  by (simp add: example_clicked_link_def)

end
